theory Spec2Isabelle
  imports Main "HOL-Library.Log_Nat"
begin

text \<open>
  A model of \<open>myAssets.js\<close>: the token list cache (\<open>fetchTokenList\<close>), the balance
  normaliser (\<open>normalizeBalance\<close>), the per-network fetcher (\<open>fetchContractData\<close>) and the
  handler of \<open>GET /api/liquidity-rates\<close>. What the program reads from outside (the clock,
  the token-list servers, the JSON-RPC endpoints) is an argument of the model; what it
  writes (requests, console lines, the cache) is part of the result.
\<close>

section \<open>JavaScript numbers\<close>

text \<open>
  A JavaScript number is an IEEE-754 binary64 value. The finite ones are held as the
  rational they denote (the two zeros are not told apart: nothing in \<open>myAssets.js\<close>
  divides by a computed value or inspects the sign of a zero), the others are the two
  infinities and NaN. Every arithmetic result is the exact result rounded to the nearest
  binary64 value, ties to even.
\<close>

datatype number = Num rat | PosInfinity | NegInfinity | NaN

text \<open>The binary exponent of a positive rational: \<open>2 ^ ilog2 a \<le> a < 2 ^ (ilog2 a + 1)\<close>.\<close>

definition ilog2 :: "rat \<Rightarrow> int" where
  "ilog2 a =
     (let (p, q) = quotient_of a;
          d = bitlen p - bitlen q
      in if power_int 2 d \<le> a then d else d - 1)"

definition roundHalfEven :: "rat \<Rightarrow> int" where
  "roundHalfEven x =
     (let f = \<lfloor>x\<rfloor>; r = x - of_int f
      in if r < 1 / 2 then f
         else if 1 / 2 < r then f + 1
         else if even f then f else f + 1)"

text \<open>
  Rounding to binary64: 53 significant bits, exponents from -1022 (below that the
  spacing stays \<open>2 ^ -1074\<close>: subnormal numbers) to 1023 (above that: infinity).
\<close>

definition round64 :: "rat \<Rightarrow> number" where
  "round64 x =
     (if x = 0 then Num 0
      else
        let a = \<bar>x\<bar>;
            e = max (ilog2 a) (- 1022);
            q = power_int 2 (e - 52);
            v = of_int (roundHalfEven (a / q)) * q
        in if power_int 2 1024 \<le> v
           then (if 0 < x then PosInfinity else NegInfinity)
           else Num (sgn x * v))"

definition sign_of :: "number \<Rightarrow> rat" where
  "sign_of x = (case x of Num a \<Rightarrow> sgn a | PosInfinity \<Rightarrow> 1 | NegInfinity \<Rightarrow> - 1 | NaN \<Rightarrow> 0)"

definition inf_of_sign :: "rat \<Rightarrow> number" where
  "inf_of_sign s = (if 0 < s then PosInfinity else if s < 0 then NegInfinity else NaN)"

text \<open>\<open>x + y\<close>\<close>

fun fadd :: "number \<Rightarrow> number \<Rightarrow> number" where
  "fadd (Num a) (Num b) = round64 (a + b)"
| "fadd NaN _ = NaN"
| "fadd _ NaN = NaN"
| "fadd PosInfinity NegInfinity = NaN"
| "fadd NegInfinity PosInfinity = NaN"
| "fadd PosInfinity _ = PosInfinity"
| "fadd _ PosInfinity = PosInfinity"
| "fadd NegInfinity _ = NegInfinity"
| "fadd _ NegInfinity = NegInfinity"

definition fneg :: "number \<Rightarrow> number" where
  "fneg x = (case x of Num a \<Rightarrow> Num (- a) | PosInfinity \<Rightarrow> NegInfinity
             | NegInfinity \<Rightarrow> PosInfinity | NaN \<Rightarrow> NaN)"

text \<open>\<open>x - y\<close>\<close>

definition fsub :: "number \<Rightarrow> number \<Rightarrow> number" where
  "fsub x y = fadd x (fneg y)"

text \<open>\<open>x * y\<close>\<close>

fun fmul :: "number \<Rightarrow> number \<Rightarrow> number" where
  "fmul (Num a) (Num b) = round64 (a * b)"
| "fmul NaN _ = NaN"
| "fmul _ NaN = NaN"
| "fmul x y = inf_of_sign (sign_of x * sign_of y)"

text \<open>\<open>x / y\<close>; a zero divisor counts as \<open>+0\<close>.\<close>

fun fdiv :: "number \<Rightarrow> number \<Rightarrow> number" where
  "fdiv (Num a) (Num b) = (if b = 0 then inf_of_sign (sgn a) else round64 (a / b))"
| "fdiv NaN _ = NaN"
| "fdiv _ NaN = NaN"
| "fdiv (Num a) _ = Num 0"
| "fdiv x (Num b) = inf_of_sign (sign_of x * (if b = 0 then 1 else sgn b))"
| "fdiv _ _ = NaN"

text \<open>\<open>x > y\<close>: false as soon as one side is NaN.\<close>

fun fgt :: "number \<Rightarrow> number \<Rightarrow> bool" where
  "fgt (Num a) (Num b) = (b < a)"
| "fgt NaN _ = False"
| "fgt _ NaN = False"
| "fgt PosInfinity y = (y \<noteq> PosInfinity)"
| "fgt x NegInfinity = (x \<noteq> NegInfinity)"
| "fgt _ _ = False"

text \<open>
  \<open>parseFloat\<close> of a decimal string, the string held as the exact rational it spells:
  the nearest binary64 value (the engines round a decimal correctly).
\<close>

definition parseFloat :: "rat \<Rightarrow> number" where
  "parseFloat s = round64 s"

section \<open>Strings\<close>

text \<open>The case mapping of the ASCII letters; every other character is left alone.\<close>

definition toUpperChar :: "char \<Rightarrow> char" where
  "toUpperChar c =
     (case map_of (zip ''abcdefghijklmnopqrstuvwxyz'' ''ABCDEFGHIJKLMNOPQRSTUVWXYZ'') c of
        Some u \<Rightarrow> u
      | None \<Rightarrow> c)"

definition toLowerChar :: "char \<Rightarrow> char" where
  "toLowerChar c =
     (case map_of (zip ''ABCDEFGHIJKLMNOPQRSTUVWXYZ'' ''abcdefghijklmnopqrstuvwxyz'') c of
        Some l \<Rightarrow> l
      | None \<Rightarrow> c)"

text \<open>
  \<open>String.prototype.toUpperCase\<close> and \<open>toLowerCase\<close> on ASCII text, which is what the
  addresses and the usual symbols are. JavaScript also maps the cased characters
  outside ASCII; here they stay as they are, and nothing below depends on what the
  two functions do to a given string, except in the ASCII examples.
\<close>

definition toUpperCase :: "string \<Rightarrow> string" where
  "toUpperCase s = map toUpperChar s"

definition toLowerCase :: "string \<Rightarrow> string" where
  "toLowerCase s = map toLowerChar s"

section \<open>Errors and console output\<close>

datatype error =
    TypeError              \<comment> \<open>a property read on \<open>undefined\<close> or \<open>null\<close>\<close>
  | HttpError nat          \<comment> \<open>\<open>throw new Error(`HTTP error! status: ...`)\<close>\<close>
  | FetchRejected          \<comment> \<open>\<open>fetch\<close> rejected: no connection, no URL\<close>
  | SyntaxError            \<comment> \<open>\<open>response.json()\<close> rejected\<close>
  | InvalidDecimalSize nat \<comment> \<open>ethers: \<open>invalid decimal size\<close>\<close>
  | RpcError               \<comment> \<open>a contract call of the data provider rejected\<close>

datatype event =
    HttpGet "string option"
  | ConsoleWarn string
  | ConsoleLog string
  | ConsoleError string error

section \<open>Configuration tables\<close>

definition chainProviders :: "(string \<times> string) list" where
  "chainProviders =
     [(''ethereum'', ''https://eth-mainnet.public.blastapi.io''),
      (''polygon'', ''https://polygon-mainnet.public.blastapi.io''),
      (''avalanche'', ''https://ava-mainnet.public.blastapi.io/ext/bc/C/rpc''),
      (''base'', ''https://base-mainnet.public.blastapi.io''),
      (''arbitrum'', ''https://arbitrum-one.public.blastapi.io''),
      (''optimism'', ''https://optimism-mainnet.public.blastapi.io'')]"

definition tokenListUrls :: "string \<rightharpoonup> string" where
  "tokenListUrls = map_of
     [(''ethereum'', ''https://gateway.ipfs.io/ipns/tokens.uniswap.org''),
      (''polygon'', ''https://unpkg.com/quickswap-default-token-list@1.3.27/build/quickswap-default.tokenlist.json''),
      (''avalanche'', ''https://raw.githubusercontent.com/traderjoe-xyz/joe-tokenlists/main/joe.tokenlist.json''),
      (''arbitrum'', ''https://tokenlist.arbitrum.io/ArbTokenLists/arbed_arb_whitelist_era.json''),
      (''optimism'', ''https://static.optimism.io/optimism.tokenlist.json''),
      (''base'', ''https://raw.githubusercontent.com/ethereum-optimism/ethereum-optimism.github.io/master/optimism.tokenlist.json'')]"

record NetworkMeta =
  nm_name :: string
  nm_image_url :: string

definition networkMetadata :: "string \<rightharpoonup> NetworkMeta" where
  "networkMetadata = map_of
     [(''ethereum'', \<lparr>nm_name = ''Ethereum'',
         nm_image_url = ''https://raw.githubusercontent.com/trustwallet/assets/master/blockchains/ethereum/info/logo.png''\<rparr>),
      (''polygon'', \<lparr>nm_name = ''Polygon'',
         nm_image_url = ''https://raw.githubusercontent.com/trustwallet/assets/master/blockchains/polygon/info/logo.png''\<rparr>),
      (''avalanche'', \<lparr>nm_name = ''Avalanche'',
         nm_image_url = ''https://raw.githubusercontent.com/trustwallet/assets/master/blockchains/avalanchec/info/logo.png''\<rparr>),
      (''base'', \<lparr>nm_name = ''Base'',
         nm_image_url = ''https://raw.githubusercontent.com/trustwallet/assets/master/blockchains/base/info/logo.png''\<rparr>),
      (''arbitrum'', \<lparr>nm_name = ''Arbitrum'',
         nm_image_url = ''https://raw.githubusercontent.com/trustwallet/assets/master/blockchains/arbitrum/info/logo.png''\<rparr>),
      (''optimism'', \<lparr>nm_name = ''Optimism'',
         nm_image_url = ''https://raw.githubusercontent.com/trustwallet/assets/master/blockchains/optimism/info/logo.png''\<rparr>)]"

definition CACHE_DURATION :: int where
  "CACHE_DURATION = 24 * 60 * 60 * 1000"

section \<open>Token list cache\<close>

text \<open>An entry of a token-list document; a field the document leaves out is \<open>None\<close>.\<close>

record Token =
  tk_name :: "string option"
  tk_symbol :: "string option"
  logoURI :: "string option"

record TokenMetadata =
  tm_name :: "string option"
  tm_symbol :: "string option"
  tm_image_url :: "string option"

type_synonym tokenMap = "string \<rightharpoonup> TokenMetadata"

record CacheEntry =
  data :: tokenMap
  timestamp :: int

type_synonym tokenListCache = "string \<rightharpoonup> CacheEntry"

text \<open>
  What \<open>fetch\<close> and \<open>response.json()\<close> can give: a rejected request, or a response with
  its \<open>ok\<close> flag, its status and its body; the body is no JSON, or a document whose
  \<open>tokens\<close> field is absent (\<open>None\<close>) or a list of entries.
\<close>

datatype json_body = JsonInvalid | JsonDoc "Token list option"

datatype fetch_outcome = Rejected | Response bool nat json_body

text \<open>
  The \<open>forEach\<close> of lines 76 to 82: a later entry replaces an earlier one with the same
  upper-cased symbol; an entry without a symbol raises on \<open>toUpperCase\<close>.
\<close>

fun buildTokenMap :: "tokenMap \<Rightarrow> Token list \<Rightarrow> error + tokenMap" where
  "buildTokenMap tokenMap [] = Inr tokenMap"
| "buildTokenMap tokenMap (token # tokens) =
     (case tk_symbol token of
        None \<Rightarrow> Inl TypeError
      | Some s \<Rightarrow>
          buildTokenMap
            (tokenMap(toUpperCase s \<mapsto>
               \<lparr>tm_name = tk_name token, tm_symbol = tk_symbol token, tm_image_url = logoURI token\<rparr>))
            tokens)"

text \<open>Lines 67 to 82: the fetch, the status check, the parse and the map.\<close>

definition fetchTokenMap :: "fetch_outcome \<Rightarrow> error + tokenMap" where
  "fetchTokenMap outcome =
     (case outcome of
        Rejected \<Rightarrow> Inl FetchRejected
      | Response ok status body \<Rightarrow>
          if \<not> ok then Inl (HttpError status)
          else (case body of
                  JsonInvalid \<Rightarrow> Inl SyntaxError
                | JsonDoc None \<Rightarrow> Inl TypeError
                | JsonDoc (Some tokens) \<Rightarrow> buildTokenMap Map.empty tokens))"

text \<open>Line 63: is there an entry for the network, younger than \<open>CACHE_DURATION\<close>?\<close>

definition cacheHit :: "tokenListCache \<Rightarrow> int \<Rightarrow> string \<Rightarrow> tokenMap option" where
  "cacheHit tokenListCache now networkName =
     (case tokenListCache networkName of
        None \<Rightarrow> None
      | Some cachedData \<Rightarrow>
          if now - timestamp cachedData < CACHE_DURATION then Some (data cachedData) else None)"

text \<open>
  \<open>fetchTokenList\<close>. \<open>fetch\<close> answers a URL (\<open>None\<close> when the table has none for the
  network), \<open>clock\<close> holds the two readings of \<open>Date.now()\<close>: at the cache test of line 63
  and at the store of line 86. The result is the returned map, the cache afterwards and
  what the call did.
\<close>

definition fetchTokenList ::
  "(string option \<Rightarrow> fetch_outcome) \<Rightarrow> int \<times> int \<Rightarrow> tokenListCache \<Rightarrow> string
     \<Rightarrow> tokenMap \<times> tokenListCache \<times> event list" where
  "fetchTokenList fetch clock tokenListCache networkName =
     (case cacheHit tokenListCache (fst clock) networkName of
        Some cached \<Rightarrow> (cached, tokenListCache, [])
      | None \<Rightarrow>
          (case fetchTokenMap (fetch (tokenListUrls networkName)) of
             Inr tokenMap \<Rightarrow>
               (tokenMap,
                tokenListCache(networkName \<mapsto> \<lparr>data = tokenMap, timestamp = snd clock\<rparr>),
                [HttpGet (tokenListUrls networkName)])
           | Inl e \<Rightarrow>
               (Map.empty, tokenListCache,
                [HttpGet (tokenListUrls networkName),
                 ConsoleWarn (''Could not fetch token list for '' @ networkName
                              @ '', using fallback or empty list'')])))"

section \<open>Balance normaliser\<close>

text \<open>
  \<open>ethers.utils.formatUnits\<close>: the decimal string of \<open>value / 10 ^ decimals\<close>, exact, held
  as the rational it spells; ethers refuses more than 256 decimals.
\<close>

definition formatUnits :: "int \<Rightarrow> nat \<Rightarrow> error + rat" where
  "formatUnits v decimals =
     (if decimals \<le> 256 then Inr (of_int v / 10 ^ decimals)
      else Inl (InvalidDecimalSize decimals))"

definition normalizeBalance :: "int \<Rightarrow> nat \<Rightarrow> error + number" where
  "normalizeBalance balance decimals =
     (case formatUnits balance decimals of
        Inl e \<Rightarrow> Inl e
      | Inr s \<Rightarrow> Inr (parseFloat s))"

section \<open>Per-network fetcher\<close>

text \<open>
  The humanized reserves of \<open>@aave/contract-helpers\<close> carry the chain's unsigned integers
  as decimal strings; the records hold the integers.
\<close>

record UserReserve =
  ur_underlyingAsset :: string
  scaledATokenBalance :: int

record ReserveData =
  rd_underlyingAsset :: string
  rd_symbol :: string
  decimals :: nat
  liquidityIndex :: int
  rd_liquidityRate :: int
  priceInMarketReferenceCurrency :: int

record AssetResult =
  underlyingAsset :: string
  symbol :: string
  name :: "string option"
  tokenBalance :: number
  priceInUSD :: number
  balanceInUSD :: number
  liquidityRate :: number
  image_url :: "string option"

record NetworkResult =
  network :: string
  networkName :: string
  networkImage :: string
  assets :: "AssetResult list"
  totalBalanceUSD :: number

text \<open>\<open>BigNumber.div\<close>: the quotient truncated towards zero.\<close>

definition bn_div :: "int \<Rightarrow> int \<Rightarrow> int" where
  "bn_div a b = sgn a * sgn b * (\<bar>a\<bar> div \<bar>b\<bar>)"

text \<open>Line 137.\<close>

definition rawBalance :: "int \<Rightarrow> int \<Rightarrow> int" where
  "rawBalance scaledBalance index = bn_div (scaledBalance * index) (10 ^ 27)"

definition placeholderImage :: string where
  "placeholderImage = ''https://raw.githubusercontent.com/trustwallet/assets/master/blockchains/ethereum/assets/0x0000000000000000000000000000000000000000/logo.png''"

text \<open>Lines 146 to 150.\<close>

definition tokenMetadataFor :: "tokenMap \<Rightarrow> string \<Rightarrow> TokenMetadata" where
  "tokenMetadataFor tokenList sy =
     (case tokenList (toUpperCase sy) of
        Some m \<Rightarrow> m
      | None \<Rightarrow> \<lparr>tm_name = Some sy, tm_symbol = Some sy, tm_image_url = Some placeholderImage\<rparr>)"

text \<open>Lines 142 and 143; \<open>Math.pow\<close> is left to the engine, so it is a parameter.\<close>

definition liquidityRateAPY :: "(number \<Rightarrow> number \<Rightarrow> number) \<Rightarrow> int \<Rightarrow> number" where
  "liquidityRateAPY Math_pow rate =
     (let liquidityRateAPR = fmul (fdiv (parseFloat (of_int rate)) (round64 (10 ^ 27))) (Num 100)
      in fmul
           (fsub (Math_pow (fadd (Num 1) (fdiv (fdiv liquidityRateAPR (Num 100)) (Num 365))) (Num 365))
                 (Num 1))
           (Num 100))"

text \<open>Lines 133 to 161: the asset of a user reserve and its market data.\<close>

definition assetOf ::
  "(number \<Rightarrow> number \<Rightarrow> number) \<Rightarrow> tokenMap \<Rightarrow> UserReserve \<Rightarrow> ReserveData \<Rightarrow> error + AssetResult" where
  "assetOf Math_pow tokenList reserve reserveData =
     (case normalizeBalance
             (rawBalance (scaledATokenBalance reserve) (liquidityIndex reserveData))
             (decimals reserveData) of
        Inl e \<Rightarrow> Inl e
      | Inr normalizedBalance \<Rightarrow>
          (case normalizeBalance (priceInMarketReferenceCurrency reserveData) 8 of
             Inl e \<Rightarrow> Inl e
           | Inr price \<Rightarrow>
               let tokenMetadata = tokenMetadataFor tokenList (rd_symbol reserveData)
               in Inr \<lparr>underlyingAsset = ur_underlyingAsset reserve,
                       symbol = rd_symbol reserveData,
                       name = tm_name tokenMetadata,
                       tokenBalance = normalizedBalance,
                       priceInUSD = price,
                       balanceInUSD = fmul normalizedBalance price,
                       liquidityRate = liquidityRateAPY Math_pow (rd_liquidityRate reserveData),
                       image_url = tm_image_url tokenMetadata\<rparr>))"

text \<open>Lines 124 to 126.\<close>

definition findReserveData :: "ReserveData list \<Rightarrow> UserReserve \<Rightarrow> ReserveData option" where
  "findReserveData reservesData reserve =
     find (\<lambda>r. toLowerCase (rd_underlyingAsset r) = toLowerCase (ur_underlyingAsset reserve))
          reservesData"

text \<open>
  The callback of \<open>map\<close> (lines 123 to 162): \<open>Inr None\<close> is the \<open>null\<close> of line 130, with
  its diagnostic.
\<close>

definition mapReserve ::
  "(number \<Rightarrow> number \<Rightarrow> number) \<Rightarrow> tokenMap \<Rightarrow> ReserveData list \<Rightarrow> UserReserve
     \<Rightarrow> (error + AssetResult option) \<times> event list" where
  "mapReserve Math_pow tokenList reservesData reserve =
     (case findReserveData reservesData reserve of
        None \<Rightarrow>
          (Inr None, [ConsoleLog (''No reserve data found for '' @ ur_underlyingAsset reserve)])
      | Some reserveData \<Rightarrow>
          (case assetOf Math_pow tokenList reserve reserveData of
             Inl e \<Rightarrow> (Inl e, [])
           | Inr a \<Rightarrow> (Inr (Some a), [])))"

text \<open>Line 122.\<close>

definition hasBalance :: "UserReserve \<Rightarrow> bool" where
  "hasBalance reserve = fgt (parseFloat (of_int (scaledATokenBalance reserve))) (Num 0)"

text \<open>\<open>Promise.all\<close>: the values in order, or the first rejection.\<close>

fun promiseAll :: "(error + 'a) list \<Rightarrow> error + 'a list" where
  "promiseAll [] = Inr []"
| "promiseAll (Inl e # ps) = Inl e"
| "promiseAll (Inr x # ps) = (case promiseAll ps of Inl e \<Rightarrow> Inl e | Inr xs \<Rightarrow> Inr (x # xs))"

text \<open>\<open>assets.filter(Boolean)\<close>\<close>

definition filterBoolean :: "'a option list \<Rightarrow> 'a list" where
  "filterBoolean xs = List.map_filter id xs"

text \<open>
  The \<open>reduce\<close> of line 171, over the list as \<open>Promise.all\<close> gave it: reading
  \<open>balanceInUSD\<close> of a \<open>null\<close> raises.
\<close>

fun reduceBalance :: "number \<Rightarrow> AssetResult option list \<Rightarrow> error + number" where
  "reduceBalance acc [] = Inr acc"
| "reduceBalance acc (None # rest) = Inl TypeError"
| "reduceBalance acc (Some asset # rest) = reduceBalance (fadd acc (balanceInUSD asset)) rest"

text \<open>Lines 165 to 173.\<close>

definition networkResult :: "string \<Rightarrow> AssetResult option list \<Rightarrow> error + NetworkResult option" where
  "networkResult chain assets' =
     (if 0 < length (filterBoolean assets')
      then (case networkMetadata chain of
              None \<Rightarrow> Inl TypeError
            | Some meta \<Rightarrow>
                (case reduceBalance (Num 0) assets' of
                   Inl e \<Rightarrow> Inl e
                 | Inr totalUSD \<Rightarrow>
                     Inr (Some \<lparr>network = chain,
                                networkName = nm_name meta,
                                networkImage = nm_image_url meta,
                                assets = filterBoolean assets',
                                totalBalanceUSD = totalUSD\<rparr>)))
      else Inr None)"

text \<open>
  The outside world of one request: the address book (which market keys exist), what the
  data provider's two calls give on a JSON-RPC endpoint, what \<open>fetch\<close> gives on a URL,
  the readings of the clock around a network's token-list fetch, and \<open>Math.pow\<close>.
\<close>

datatype 'a rpc = RpcFailed | RpcOk 'a

record provider =
  getUserReservesHumanized :: "UserReserve list rpc"
  getReservesHumanized :: "ReserveData list rpc"

record world =
  markets :: "string \<Rightarrow> bool"
  JsonRpcProvider :: "string \<Rightarrow> provider"
  fetch :: "string option \<Rightarrow> fetch_outcome"
  Date_now :: "string \<Rightarrow> int \<times> int"
  Math_pow :: "number \<Rightarrow> number \<Rightarrow> number"

text \<open>Line 102.\<close>

definition chainKey :: "string \<Rightarrow> string" where
  "chainKey chain = ''AaveV3'' @ toUpperCase (take 1 chain) @ drop 1 chain"

text \<open>
  The \<open>try\<close> block of \<open>fetchContractData\<close> (lines 102 to 173): its value or the exception,
  the cache afterwards and what was done. Reading \<open>markets[chainKey]\<close> of a key the
  address book does not have raises; the constructor of the data provider is given an
  address of the address book and does not; \<open>ChainId[chain]\<close> is only stored.
\<close>

definition fetchContractData_try ::
  "world \<Rightarrow> tokenListCache \<Rightarrow> string \<Rightarrow> provider
     \<Rightarrow> (error + NetworkResult option) \<times> tokenListCache \<times> event list" where
  "fetchContractData_try w tokenListCache chain prov =
     (if \<not> markets w (chainKey chain) then (Inl TypeError, tokenListCache, [])
      else
        (case getUserReservesHumanized prov of
           RpcFailed \<Rightarrow> (Inl RpcError, tokenListCache, [])
         | RpcOk userReserves \<Rightarrow>
             (case getReservesHumanized prov of
                RpcFailed \<Rightarrow> (Inl RpcError, tokenListCache, [])
              | RpcOk reservesData \<Rightarrow>
                  let (tokenList, cache', evs) =
                        fetchTokenList (fetch w) (Date_now w chain) tokenListCache chain;
                      mapped = map (mapReserve (Math_pow w) tokenList reservesData)
                                   (filter hasBalance userReserves);
                      evs' = evs @ concat (map snd mapped)
                  in (case promiseAll (map fst mapped) of
                        Inl e \<Rightarrow> (Inl e, cache', evs')
                      | Inr assets' \<Rightarrow> (networkResult chain assets', cache', evs')))))"

text \<open>\<open>fetchContractData\<close>: the \<open>catch\<close> of lines 174 to 177 turns an exception into \<open>null\<close>.\<close>

definition fetchContractData ::
  "world \<Rightarrow> tokenListCache \<Rightarrow> string \<Rightarrow> provider
     \<Rightarrow> NetworkResult option \<times> tokenListCache \<times> event list" where
  "fetchContractData w tokenListCache chain prov =
     (case fetchContractData_try w tokenListCache chain prov of
        (Inr r, cache', evs) \<Rightarrow> (r, cache', evs)
      | (Inl e, cache', evs) \<Rightarrow>
          (None, cache', evs @ [ConsoleError (''Error fetching contract data for '' @ chain @ '':'') e]))"

section \<open>HTTP handler\<close>

datatype http_response = Json nat "NetworkResult list" | Send nat string

text \<open>The loop of lines 188 to 194, over the entries that are left.\<close>

fun collect ::
  "world \<Rightarrow> (string \<times> string) list \<Rightarrow> NetworkResult list \<times> tokenListCache \<times> event list
     \<Rightarrow> NetworkResult list \<times> tokenListCache \<times> event list" where
  "collect w [] st = st"
| "collect w ((chain, rpcUrl) # rest) (results, tokenListCache, evs) =
     (let (chainData, cache', evs') =
            fetchContractData w tokenListCache chain (JsonRpcProvider w rpcUrl)
      in collect w rest
           (case chainData of
              Some d \<Rightarrow> (results @ [d], cache', evs @ evs')
            | None \<Rightarrow> (results, cache', evs @ evs')))"

text \<open>
  \<open>GET /api/liquidity-rates\<close>. Nothing between lines 185 and 196 raises
  (\<open>fetchContractData\<close> catches its own exceptions, the constructor of
  \<open>JsonRpcProvider\<close> only stores the URL), so the \<open>catch\<close> of line 197 has no branch
  here; \<open>res.json\<close> answers with status 200.
\<close>

definition liquidityRates :: "world \<Rightarrow> tokenListCache \<Rightarrow> http_response \<times> tokenListCache \<times> event list" where
  "liquidityRates w tokenListCache =
     (let (results, cache', evs) = collect w chainProviders ([], tokenListCache, [ConsoleLog ''REQ''])
      in (Json 200 results, cache', evs))"

section \<open>Example requests\<close>

text \<open>
  A stand-in for \<open>Math.pow\<close> in the examples, which call it at \<open>(1, 365)\<close> only: the
  correctly rounded power for a finite base and a natural exponent. It is not the
  engine's function (which may be an ulp off and accepts every argument); the model
  takes \<open>Math.pow\<close> as a parameter.
\<close>

definition pow_rounded :: "number \<Rightarrow> number \<Rightarrow> number" where
  "pow_rounded x y =
     (case (x, y) of
        (Num a, Num b) \<Rightarrow> if 0 \<le> b \<and> b = of_int \<lfloor>b\<rfloor> then round64 (a ^ nat \<lfloor>b\<rfloor>) else NaN
      | _ \<Rightarrow> NaN)"

definition usdcReserve :: ReserveData where
  "usdcReserve =
     \<lparr>rd_underlyingAsset = ''0xa0b86991c6218b36c1d19d4a2e9eb0ce3606eb48'',
      rd_symbol = ''USDC'',
      decimals = 6,
      liquidityIndex = 1050000000000000000000000000,
      rd_liquidityRate = 0,
      priceInMarketReferenceCurrency = 100000000\<rparr>"

definition usdcPosition :: UserReserve where
  "usdcPosition =
     \<lparr>ur_underlyingAsset = ''0xA0b86991c6218b36c1d19D4a2e9Eb0cE3606eB48'',
      scaledATokenBalance = 1000\<rparr>"

definition mainnetOnly :: world where
  "mainnetOnly =
     \<lparr>markets = (\<lambda>key. key \<in> set [''AaveV3Ethereum'', ''AaveV3Polygon'', ''AaveV3Avalanche'',
                                    ''AaveV3Base'', ''AaveV3Arbitrum'', ''AaveV3Optimism'']),
      JsonRpcProvider = (\<lambda>rpcUrl.
         if rpcUrl = ''https://eth-mainnet.public.blastapi.io''
         then \<lparr>getUserReservesHumanized = RpcOk [usdcPosition],
               getReservesHumanized = RpcOk [usdcReserve]\<rparr>
         else \<lparr>getUserReservesHumanized = RpcFailed, getReservesHumanized = RpcFailed\<rparr>),
      fetch = (\<lambda>url. Rejected),
      Date_now = (\<lambda>chain. (1700000000000, 1700000000500)),
      Math_pow = pow_rounded\<rparr>"

definition usdcAsset :: AssetResult where
  "usdcAsset =
     \<lparr>underlyingAsset = ''0xA0b86991c6218b36c1d19D4a2e9Eb0cE3606eB48'',
      symbol = ''USDC'',
      name = Some ''USDC'',
      tokenBalance = Num (4842270319348757 / 2 ^ 62),
      priceInUSD = Num 1,
      balanceInUSD = Num (4842270319348757 / 2 ^ 62),
      liquidityRate = Num 0,
      image_url = Some placeholderImage\<rparr>"

definition ethereumResult :: NetworkResult where
  "ethereumResult =
     \<lparr>network = ''ethereum'',
      networkName = ''Ethereum'',
      networkImage = ''https://raw.githubusercontent.com/trustwallet/assets/master/blockchains/ethereum/info/logo.png'',
      assets = [usdcAsset],
      totalBalanceUSD = Num (4842270319348757 / 2 ^ 62)\<rparr>"

definition allDown :: world where
  "allDown =
     \<lparr>markets = (\<lambda>key. key \<in> set [''AaveV3Ethereum'', ''AaveV3Polygon'', ''AaveV3Avalanche'',
                                    ''AaveV3Base'', ''AaveV3Arbitrum'', ''AaveV3Optimism'']),
      JsonRpcProvider = (\<lambda>rpcUrl.
         \<lparr>getUserReservesHumanized = RpcFailed, getReservesHumanized = RpcFailed\<rparr>),
      fetch = (\<lambda>url. Rejected),
      Date_now = (\<lambda>chain. (1700000000000, 1700000000500)),
      Math_pow = pow_rounded\<rparr>"

definition wethPosition :: UserReserve where
  "wethPosition =
     \<lparr>ur_underlyingAsset = ''0xC02aaA39b223FE8D0A0e5C4F27eAD9083C756Cc2'',
      scaledATokenBalance = 5000000000000000000\<rparr>"

text \<open>Mainnet with a second position whose asset the market data does not list.\<close>

definition unlistedPosition :: world where
  "unlistedPosition =
     mainnetOnly\<lparr>JsonRpcProvider := (\<lambda>rpcUrl.
         if rpcUrl = ''https://eth-mainnet.public.blastapi.io''
         then \<lparr>getUserReservesHumanized = RpcOk [usdcPosition, wethPosition],
               getReservesHumanized = RpcOk [usdcReserve]\<rparr>
         else \<lparr>getUserReservesHumanized = RpcFailed, getReservesHumanized = RpcFailed\<rparr>)\<rparr>"

text \<open>Mainnet with a market whose liquidity index is still zero.\<close>

definition zeroIndex :: world where
  "zeroIndex =
     mainnetOnly\<lparr>JsonRpcProvider := (\<lambda>rpcUrl.
         if rpcUrl = ''https://eth-mainnet.public.blastapi.io''
         then \<lparr>getUserReservesHumanized = RpcOk [usdcPosition],
               getReservesHumanized = RpcOk [usdcReserve\<lparr>liquidityIndex := 0\<rparr>]\<rparr>
         else \<lparr>getUserReservesHumanized = RpcFailed, getReservesHumanized = RpcFailed\<rparr>)\<rparr>"

definition zeroAsset :: AssetResult where
  "zeroAsset = usdcAsset\<lparr>tokenBalance := Num 0, balanceInUSD := Num 0\<rparr>"

definition usdcToken :: Token where
  "usdcToken =
     \<lparr>tk_name = Some ''USD Coin'',
      tk_symbol = Some ''usdc'',
      logoURI = Some ''https://assets.coingecko.com/coins/images/6319/thumb/USD_Coin_icon.png''\<rparr>"

definition usdcMetadata :: TokenMetadata where
  "usdcMetadata =
     \<lparr>tm_name = Some ''USD Coin'',
      tm_symbol = Some ''usdc'',
      tm_image_url = Some ''https://assets.coingecko.com/coins/images/6319/thumb/USD_Coin_icon.png''\<rparr>"

definition tokenListServed :: "string option \<Rightarrow> fetch_outcome" where
  "tokenListServed url = Response True 200 (JsonDoc (Some [usdcToken]))"

definition tokenListDown :: "string option \<Rightarrow> fetch_outcome" where
  "tokenListDown url = Response False 503 JsonInvalid"

definition cachedAt :: "int \<Rightarrow> tokenListCache" where
  "cachedAt t = [''ethereum'' \<mapsto> \<lparr>data = [''USDC'' \<mapsto> usdcMetadata], timestamp = t\<rparr>]"

text \<open>Mainnet with one WETH position, at a price that is not a round number.\<close>

definition wethReserve :: ReserveData where
  "wethReserve =
     \<lparr>rd_underlyingAsset = ''0xc02aaa39b223fe8d0a0e5c4f27ead9083c756cc2'',
      rd_symbol = ''WETH'',
      decimals = 18,
      liquidityIndex = 1020000000000000000000000000,
      rd_liquidityRate = 0,
      priceInMarketReferenceCurrency = 351234000000\<rparr>"

definition wethMarket :: world where
  "wethMarket =
     mainnetOnly\<lparr>JsonRpcProvider := (\<lambda>rpcUrl.
         if rpcUrl = ''https://eth-mainnet.public.blastapi.io''
         then \<lparr>getUserReservesHumanized = RpcOk [wethPosition],
               getReservesHumanized = RpcOk [wethReserve]\<rparr>
         else \<lparr>getUserReservesHumanized = RpcFailed, getReservesHumanized = RpcFailed\<rparr>)\<rparr>"

definition wethAsset :: AssetResult where
  "wethAsset =
     \<lparr>underlyingAsset = ''0xC02aaA39b223FE8D0A0e5C4F27eAD9083C756Cc2'',
      symbol = ''WETH'',
      name = Some ''WETH'',
      tokenBalance = Num (2871044762448691 / 2 ^ 49),
      priceInUSD = Num (965464667675689 / 2 ^ 38),
      balanceInUSD = Num (2461934902573007 / 2 ^ 37),
      liquidityRate = Num 0,
      image_url = Some placeholderImage\<rparr>"

definition wethResult :: NetworkResult where
  "wethResult =
     \<lparr>network = ''ethereum'',
      networkName = ''Ethereum'',
      networkImage = ''https://raw.githubusercontent.com/trustwallet/assets/master/blockchains/ethereum/info/logo.png'',
      assets = [wethAsset],
      totalBalanceUSD = Num (2461934902573007 / 2 ^ 37)\<rparr>"

section \<open>Rounding\<close>

lemma roundHalfEven_nonneg: "0 \<le> y \<Longrightarrow> 0 \<le> roundHalfEven y"
  by (auto simp: roundHalfEven_def Let_def)

lemma roundHalfEven_pos: "1 / 2 < y \<Longrightarrow> 1 \<le> roundHalfEven y"
proof -
  assume y: "1 / 2 < y"
  then have f: "0 \<le> \<lfloor>y\<rfloor>" by simp
  show ?thesis
  proof (cases "\<lfloor>y\<rfloor> = 0")
    case True
    with y show ?thesis by (simp add: roundHalfEven_def Let_def)
  next
    case False
    with f have "1 \<le> \<lfloor>y\<rfloor>" by linarith
    then show ?thesis by (auto simp: roundHalfEven_def Let_def)
  qed
qed

lemma ilog2_le:
  assumes "0 < x"
  shows "power_int 2 (ilog2 x) \<le> x"
proof -
  obtain p q where pq: "quotient_of x = (p, q)" by (cases "quotient_of x")
  then have q: "0 < q" and x: "x = of_int p / of_int q"
    by (auto dest: quotient_of_denom_pos quotient_of_div)
  with assms have p: "0 < p" by (simp add: zero_less_divide_iff)
  let ?d = "bitlen p - bitlen q"
  show ?thesis
  proof (cases "power_int 2 ?d \<le> x")
    case True
    with pq show ?thesis by (simp add: ilog2_def)
  next
    case False
    from bitlen_bounds [OF p] have lo: "2 ^ nat (bitlen p - 1) \<le> p" by simp
    from bitlen_bounds [OF q] have hi: "q < 2 ^ nat (bitlen q)" by simp
    have bp: "1 \<le> bitlen p" using p bitlen_eq_zero_iff [of p] bitlen_nonneg [of p] by linarith
    have bq: "0 \<le> bitlen q" by (rule bitlen_nonneg)
    have "power_int (2::rat) (?d - 1) = power_int 2 ((bitlen p - 1) - bitlen q)"
      by (rule arg_cong [where f = "power_int 2"]) simp
    also have "\<dots> = power_int 2 (bitlen p - 1) / power_int 2 (bitlen q)"
      by (rule power_int_diff) simp
    also have "\<dots> = 2 ^ nat (bitlen p - 1) / 2 ^ nat (bitlen q)"
      using bp bq by (simp add: power_int_def)
    also have "\<dots> \<le> of_int p / 2 ^ nat (bitlen q)"
    proof -
      from lo have "(of_int (2 ^ nat (bitlen p - 1)) :: rat) \<le> of_int p"
        by (simp only: of_int_le_iff)
      then show ?thesis by (simp add: divide_right_mono)
    qed
    also have "\<dots> \<le> of_int p / of_int q"
    proof -
      from hi have "(of_int q :: rat) \<le> of_int (2 ^ nat (bitlen q))"
        by (simp only: of_int_le_iff less_imp_le)
      with p q show ?thesis by (simp add: frac_le)
    qed
    finally have "power_int 2 (?d - 1) \<le> x" by (simp add: x)
    with False pq show ?thesis by (simp add: ilog2_def)
  qed
qed

lemma round64_pos:
  assumes "power_int 2 (- 1075) < x"
  shows "fgt (round64 x) (Num 0)"
proof -
  have "(0::rat) < power_int 2 (- 1075)" by (simp add: power_int_def)
  with assms have x: "0 < x" by linarith
  define e where "e = max (ilog2 x) (- 1022)"
  define q :: rat where "q = power_int 2 (e - 52)"
  define v where "v = of_int (roundHalfEven (x / q)) * q"
  have q: "0 < q" by (simp add: q_def power_int_def)
  have "power_int 2 (e - 53) < x"
  proof (cases "ilog2 x \<le> - 1022")
    case True
    then have "e = - 1022" by (simp add: e_def)
    with assms show ?thesis by simp
  next
    case False
    then have "e = ilog2 x" by (simp add: e_def)
    moreover have "power_int (2::rat) (e - 53) < power_int 2 e"
      by (rule power_int_strict_increasing) simp_all
    ultimately show ?thesis using ilog2_le [OF x] by simp
  qed
  moreover have "power_int (2::rat) (e - 53) = q / 2"
    by (simp add: q_def power_int_diff)
  ultimately have "1 / 2 < x / q" using q by (simp add: field_simps)
  then have "1 \<le> roundHalfEven (x / q)" by (rule roundHalfEven_pos)
  then have "(1::rat) \<le> of_int (roundHalfEven (x / q))" by simp
  with q have v: "0 < v" by (simp add: v_def)
  have "round64 x = (if power_int 2 1024 \<le> v then PosInfinity else Num v)"
    using x by (simp add: round64_def Let_def e_def q_def v_def)
  with v show ?thesis by simp
qed

lemma round64_nonpos:
  assumes "x \<le> 0"
  shows "\<not> fgt (round64 x) (Num 0)"
proof (cases "x = 0")
  case True
  then show ?thesis by (simp add: round64_def)
next
  case False
  with assms have x: "x < 0" by simp
  define q :: rat where "q = power_int 2 (max (ilog2 \<bar>x\<bar>) (- 1022) - 52)"
  define v where "v = of_int (roundHalfEven (\<bar>x\<bar> / q)) * q"
  have q: "0 < q" by (simp add: q_def power_int_def)
  then have "0 \<le> roundHalfEven (\<bar>x\<bar> / q)" by (intro roundHalfEven_nonneg) simp
  with q have v: "0 \<le> v" by (simp add: v_def)
  have "round64 x = (if power_int 2 1024 \<le> v then NegInfinity else Num (- v))"
    using x by (simp add: round64_def Let_def q_def v_def)
  with v show ?thesis by simp
qed

lemma hasBalance_iff: "hasBalance r \<longleftrightarrow> 0 < scaledATokenBalance r"
proof
  assume h: "hasBalance r"
  show "0 < scaledATokenBalance r"
  proof (rule ccontr)
    assume "\<not> 0 < scaledATokenBalance r"
    then have "(of_int (scaledATokenBalance r) :: rat) \<le> 0" by simp
    from round64_nonpos [OF this] h show False by (simp add: hasBalance_def parseFloat_def)
  qed
next
  assume "0 < scaledATokenBalance r"
  then have "(1::rat) \<le> of_int (scaledATokenBalance r)" by simp
  moreover have "power_int (2::rat) (- 1075) < 1" by (simp add: power_int_def field_simps)
  ultimately have "power_int 2 (- 1075) < (of_int (scaledATokenBalance r) :: rat)" by linarith
  then show "hasBalance r" by (simp add: hasBalance_def parseFloat_def round64_pos)
qed


lemma ilog2_less:
  assumes "0 < x"
  shows "x < power_int 2 (ilog2 x + 1)"
proof -
  obtain p q where pq: "quotient_of x = (p, q)" by (cases "quotient_of x")
  then have q: "0 < q" and x: "x = of_int p / of_int q"
    by (auto dest: quotient_of_denom_pos quotient_of_div)
  with assms have p: "0 < p" by (simp add: zero_less_divide_iff)
  let ?d = "bitlen p - bitlen q"
  show ?thesis
  proof (cases "power_int 2 ?d \<le> x")
    case False
    with pq show ?thesis by (simp add: ilog2_def)
  next
    case True
    from bitlen_bounds [OF p] have hi: "p < 2 ^ nat (bitlen p)" by simp
    from bitlen_bounds [OF q] have lo: "2 ^ nat (bitlen q - 1) \<le> q" by simp
    have bq: "1 \<le> bitlen q" using q bitlen_eq_zero_iff [of q] bitlen_nonneg [of q] by linarith
    have bp: "0 \<le> bitlen p" by (rule bitlen_nonneg)
    have "of_int p / of_int q \<le> of_int p / (2 ^ nat (bitlen q - 1) :: rat)"
    proof -
      from lo have "(of_int (2 ^ nat (bitlen q - 1)) :: rat) \<le> of_int q"
        by (simp only: of_int_le_iff)
      with p show ?thesis by (simp add: frac_le)
    qed
    also have "\<dots> < 2 ^ nat (bitlen p) / 2 ^ nat (bitlen q - 1)"
    proof -
      from hi have "(of_int p :: rat) < of_int (2 ^ nat (bitlen p))"
        by (simp only: of_int_less_iff)
      then show ?thesis by (simp add: divide_strict_right_mono)
    qed
    also have "\<dots> = power_int 2 (bitlen p) / power_int 2 (bitlen q - 1)"
      using bp bq by (simp add: power_int_def)
    also have "\<dots> = power_int 2 (bitlen p - (bitlen q - 1))"
      by (rule power_int_diff [symmetric]) simp
    also have "\<dots> = power_int 2 (?d + 1)"
      by (rule arg_cong [where f = "power_int 2"]) simp
    finally have "x < power_int 2 (?d + 1)" by (simp add: x)
    with True pq show ?thesis by (simp add: ilog2_def)
  qed
qed

lemma power_int_2_less_exp:
  assumes "power_int (2::rat) m < power_int 2 n"
  shows "m < n"
proof (rule ccontr)
  assume "\<not> m < n"
  then have "n \<le> m" by simp
  then have "power_int (2::rat) n \<le> power_int 2 m" by (rule power_int_increasing) simp
  with assms show False by simp
qed

lemma ilog2_eq:
  assumes "power_int 2 e \<le> x" and "x < power_int 2 (e + 1)"
  shows "ilog2 x = e"
proof -
  have "(0::rat) < power_int 2 e" by (simp add: power_int_def)
  with assms(1) have x: "0 < x" by linarith
  have "power_int (2::rat) e < power_int 2 (ilog2 x + 1)"
    using assms(1) ilog2_less [OF x] by linarith
  then have a: "e < ilog2 x + 1" by (rule power_int_2_less_exp)
  have "power_int (2::rat) (ilog2 x) < power_int 2 (e + 1)"
    using assms(2) ilog2_le [OF x] by linarith
  then have "ilog2 x < e + 1" by (rule power_int_2_less_exp)
  with a show ?thesis by linarith
qed

lemma roundHalfEven_near:
  assumes "\<bar>y - of_int m\<bar> < 1 / 2"
  shows "roundHalfEven y = m"
proof -
  from assms have lo: "of_int m - 1 / 2 < y" and hi: "y < of_int m + 1 / 2" by linarith+
  show ?thesis
  proof (cases "of_int m \<le> y")
    case True
    with hi have "\<lfloor>y\<rfloor> = m" by (intro floor_unique) linarith+
    with hi show ?thesis by (simp add: roundHalfEven_def Let_def)
  next
    case False
    have "of_int (m - 1) \<le> y" using lo by simp
    moreover have "y < of_int (m - 1) + 1" using False by simp
    ultimately have f: "\<lfloor>y\<rfloor> = m - 1" by (rule floor_unique)
    with lo have "1 / 2 < y - of_int \<lfloor>y\<rfloor>" by simp
    with f show ?thesis by (simp add: roundHalfEven_def Let_def)
  qed
qed

lemma round64_near:
  assumes x: "0 < x" and lo: "power_int 2 e \<le> x" and hi: "x < power_int 2 (e + 1)"
    and e: "- 1022 \<le> e" "e \<le> 1022"
    and m: "\<bar>x / power_int 2 (e - 52) - of_int m\<bar> < 1 / 2"
  shows "round64 x = Num (of_int m * power_int 2 (e - 52))"
proof -
  define q :: rat where "q = power_int 2 (e - 52)"
  have q: "0 < q" by (simp add: q_def power_int_def)
  have il: "ilog2 x = e" using lo hi by (rule ilog2_eq)
  have r: "roundHalfEven (x / q) = m" using m unfolding q_def by (rule roundHalfEven_near)
  have "power_int (2::rat) (e + 1) = power_int 2 (e - 52 + 53)"
    by (rule arg_cong [where f = "power_int 2"]) simp
  also have "\<dots> = power_int 2 (e - 52) * power_int 2 53"
    by (rule power_int_add) simp
  also have "\<dots> = q * 2 ^ 53"
    by (simp add: q_def)
  finally have pq: "power_int (2::rat) (e + 1) = q * 2 ^ 53" .
  with hi q have "x / q < 2 ^ 53" by (simp add: field_simps)
  with m have "of_int m < (2 ^ 53 + 1 :: rat)" unfolding q_def by linarith
  then have "of_int m < (of_int (2 ^ 53 + 1) :: rat)" by simp
  then have "m < 2 ^ 53 + 1" by (simp only: of_int_less_iff)
  then have "m \<le> 2 ^ 53" by simp
  then have "(of_int m :: rat) \<le> of_int (2 ^ 53)" by (simp only: of_int_le_iff)
  then have "of_int m * q \<le> 2 ^ 53 * q" using q by simp
  also have "\<dots> = power_int 2 (e + 1)"
    using pq by (simp add: algebra_simps)
  also have "\<dots> \<le> power_int 2 1023"
    using e by (intro power_int_increasing) simp_all
  also have "\<dots> < power_int (2::rat) 1024"
    by (intro power_int_strict_increasing) simp_all
  finally have v: "of_int m * q < power_int 2 1024" .
  have mx: "max e (- 1022) = e" using e by simp
  from x r v show ?thesis
    by (simp add: round64_def Let_def q_def il mx)
qed

lemma round64_0: "round64 0 = Num 0"
  by (simp add: round64_def)

text \<open>
  The error of a rounding: half a unit in the last place, that is \<open>2 ^ -53\<close> of the
  value, or \<open>2 ^ -1075\<close> among the subnormal numbers; a result that is not finite comes
  from a value of at least \<open>2 ^ 1023\<close>.
\<close>

lemma roundHalfEven_error: "\<bar>of_int (roundHalfEven y) - y\<bar> \<le> (1 / 2 :: rat)"
proof -
  have lo: "of_int \<lfloor>y\<rfloor> \<le> y" and hi: "y < of_int \<lfloor>y\<rfloor> + 1" by linarith+
  show ?thesis
  proof (cases "y - of_int \<lfloor>y\<rfloor> < 1 / 2")
    case True
    with lo show ?thesis by (simp add: roundHalfEven_def Let_def)
  next
    case False
    note nf = this
    show ?thesis
    proof (cases "1 / 2 < y - of_int \<lfloor>y\<rfloor>")
      case True
      with nf hi show ?thesis by (simp add: roundHalfEven_def Let_def)
    next
      case False
      with nf have "y - of_int \<lfloor>y\<rfloor> = 1 / 2" by linarith
      then show ?thesis by (simp add: roundHalfEven_def Let_def)
    qed
  qed
qed

lemma round64_shape:
  assumes "x \<noteq> 0"
  shows "\<exists>v. 0 \<le> v \<and> \<bar>v - \<bar>x\<bar>\<bar> \<le> max (\<bar>x\<bar> / 2 ^ 53) (1 / 2 ^ 1075) \<and>
           round64 x = (if power_int 2 1024 \<le> v
                        then (if 0 < x then PosInfinity else NegInfinity)
                        else Num (sgn x * v))"
proof -
  define a where "a = \<bar>x\<bar>"
  define e where "e = max (ilog2 a) (- 1022)"
  define q :: rat where "q = power_int 2 (e - 52)"
  define v where "v = of_int (roundHalfEven (a / q)) * q"
  have a: "0 < a" using assms by (simp add: a_def)
  have q: "0 < q" by (simp add: q_def power_int_def)
  have "0 \<le> roundHalfEven (a / q)" using a q by (intro roundHalfEven_nonneg) simp
  with q have v0: "0 \<le> v" by (simp add: v_def)
  have "v - a = q * (of_int (roundHalfEven (a / q)) - a / q)"
    using q by (simp add: v_def field_simps)
  then have "\<bar>v - a\<bar> = \<bar>q\<bar> * \<bar>of_int (roundHalfEven (a / q)) - a / q\<bar>"
    by (simp only: abs_mult)
  also have "\<dots> = q * \<bar>of_int (roundHalfEven (a / q)) - a / q\<bar>"
    using q by simp
  also have "\<dots> \<le> q * (1 / 2)"
    using q roundHalfEven_error [of "a / q"] by (intro mult_left_mono) simp_all
  finally have err: "\<bar>v - a\<bar> \<le> q / 2" by simp
  have half: "q / 2 = power_int 2 (e - 53)"
  proof -
    have "power_int (2::rat) (e - 52) = power_int 2 (e - 53 + 1)"
      by (rule arg_cong [where f = "power_int 2"]) simp
    also have "\<dots> = power_int 2 (e - 53) * power_int 2 1"
      by (rule power_int_add) simp
    finally show ?thesis by (simp add: q_def)
  qed
  have "q / 2 \<le> max (a / 2 ^ 53) (1 / 2 ^ 1075)"
  proof (cases "ilog2 a \<le> - 1022")
    case True
    then have "e = - 1022" by (simp add: e_def)
    then have "q / 2 = 1 / 2 ^ 1075" by (simp add: half power_int_minus field_simps)
    then show ?thesis by simp
  next
    case False
    then have e: "e = ilog2 a" by (simp add: e_def)
    have "power_int (2::rat) (e - 53) = power_int 2 e / power_int 2 53"
      by (rule power_int_diff) simp
    also have "\<dots> \<le> a / power_int 2 53"
      using ilog2_le [OF a] by (intro divide_right_mono) (simp_all add: e)
    finally have "q / 2 \<le> a / 2 ^ 53" by (simp add: half)
    then show ?thesis by simp
  qed
  with err have "\<bar>v - a\<bar> \<le> max (a / 2 ^ 53) (1 / 2 ^ 1075)" by linarith
  moreover have "round64 x = (if power_int 2 1024 \<le> v
                        then (if 0 < x then PosInfinity else NegInfinity)
                        else Num (sgn x * v))"
    using assms by (simp add: round64_def Let_def a_def e_def q_def v_def)
  ultimately show ?thesis using v0 unfolding a_def by blast
qed

lemma round64_not_NaN: "round64 x \<noteq> NaN"
proof (cases "x = 0")
  case True
  then show ?thesis by (simp add: round64_def)
next
  case False
  from round64_shape [OF this] show ?thesis by (auto split: if_splits)
qed

lemma round64_error:
  assumes "round64 x = Num b"
  shows "\<bar>b - x\<bar> \<le> max (\<bar>x\<bar> / 2 ^ 53) (1 / 2 ^ 1075)"
proof (cases "x = 0")
  case True
  with assms show ?thesis by (simp add: round64_def)
next
  case False
  from round64_shape [OF this] obtain v
    where v: "0 \<le> v" "\<bar>v - \<bar>x\<bar>\<bar> \<le> max (\<bar>x\<bar> / 2 ^ 53) (1 / 2 ^ 1075)"
      and r: "round64 x = (if power_int 2 1024 \<le> v
                        then (if 0 < x then PosInfinity else NegInfinity)
                        else Num (sgn x * v))"
    by blast
  from r assms have b: "b = sgn x * v" by (auto split: if_splits)
  have "\<bar>b - x\<bar> = \<bar>v - \<bar>x\<bar>\<bar>"
  proof (cases "0 < x")
    case True
    then show ?thesis by (simp add: b)
  next
    case False
    with \<open>x \<noteq> 0\<close> have "x < 0" by simp
    then show ?thesis by (simp add: b)
  qed
  with v(2) show ?thesis by simp
qed

lemma round64_overflow:
  assumes "\<forall>b. round64 x \<noteq> Num b"
  shows "2 ^ 1023 \<le> \<bar>x\<bar> \<and> round64 x = (if 0 < x then PosInfinity else NegInfinity)"
proof (cases "x = 0")
  case True
  with assms show ?thesis by (simp add: round64_def)
next
  case False
  from round64_shape [OF this] obtain v
    where v: "0 \<le> v" "\<bar>v - \<bar>x\<bar>\<bar> \<le> max (\<bar>x\<bar> / 2 ^ 53) (1 / 2 ^ 1075)"
      and r: "round64 x = (if power_int 2 1024 \<le> v
                        then (if 0 < x then PosInfinity else NegInfinity)
                        else Num (sgn x * v))"
    by blast
  from r assms have big: "power_int 2 1024 \<le> v" by (auto split: if_splits)
  with r have inf: "round64 x = (if 0 < x then PosInfinity else NegInfinity)" by simp
  have "2 ^ 1023 \<le> \<bar>x\<bar>"
  proof (rule ccontr)
    assume "\<not> 2 ^ 1023 \<le> \<bar>x\<bar>"
    then have small: "\<bar>x\<bar> < 2 ^ 1023" by simp
    have "\<bar>x\<bar> / 2 ^ 53 \<le> \<bar>x\<bar>" by (simp add: field_simps)
    with small have "\<bar>x\<bar> / 2 ^ 53 < 2 ^ 1023" by linarith
    moreover have "(1 / 2 ^ 1075 :: rat) < 2 ^ 1023" by (simp add: field_simps)
    ultimately have "max (\<bar>x\<bar> / 2 ^ 53) (1 / 2 ^ 1075) < 2 ^ 1023" by simp
    with v(2) small have "v < 2 ^ 1023 + 2 ^ 1023" by linarith
    with big show False by simp
  qed
  with inf show ?thesis by simp
qed

section \<open>Where an asset of the response comes from\<close>

lemma promiseAll_Inr_set:
  "promiseAll ps = Inr xs \<Longrightarrow> x \<in> set xs \<Longrightarrow> Inr x \<in> set ps"
proof (induction ps arbitrary: xs rule: promiseAll.induct)
  case 1
  then show ?case by simp
next
  case (2 e ps)
  then show ?case by simp
next
  case (3 y ps)
  then show ?case by (auto split: sum.splits)
qed

lemma filterBoolean_set: "a \<in> set (filterBoolean xs) \<longleftrightarrow> Some a \<in> set xs"
  by (induction xs) (auto simp: filterBoolean_def List.map_filter_simps split: option.splits)

lemma networkResult_assets:
  "networkResult chain as = Inr (Some nr) \<Longrightarrow> assets nr = filterBoolean as"
  by (auto simp: networkResult_def split: if_splits option.splits sum.splits)

lemma mapReserve_Some:
  "fst (mapReserve P tkl rds r) = Inr (Some a) \<Longrightarrow>
     \<exists>rd. findReserveData rds r = Some rd \<and> assetOf P tkl r rd = Inr a"
  by (auto simp: mapReserve_def split: option.splits sum.splits)

lemma fetchContractData_asset:
  assumes "fetchContractData w c chain prov = (Some nr, c', evs)" and "a \<in> set (assets nr)"
  shows "\<exists>urs rds tkl r rd.
           getUserReservesHumanized prov = RpcOk urs \<and> getReservesHumanized prov = RpcOk rds \<and>
           r \<in> set urs \<and> hasBalance r \<and> findReserveData rds r = Some rd \<and>
           assetOf (Math_pow w) tkl r rd = Inr a"
proof -
  from assms(1) obtain c1 e1 where t: "fetchContractData_try w c chain prov = (Inr (Some nr), c1, e1)"
    by (auto simp: fetchContractData_def split: prod.splits sum.splits)
  then obtain urs rds where u: "getUserReservesHumanized prov = RpcOk urs"
      and d: "getReservesHumanized prov = RpcOk rds"
    by (auto simp: fetchContractData_try_def split: if_splits rpc.splits)
  obtain tkl c2 e2 where f: "fetchTokenList (fetch w) (Date_now w chain) c chain = (tkl, c2, e2)"
    by (cases "fetchTokenList (fetch w) (Date_now w chain) c chain") auto
  let ?m = "map (mapReserve (Math_pow w) tkl rds) (filter hasBalance urs)"
  from t u d f obtain as where p: "promiseAll (map fst ?m) = Inr as"
      and n: "networkResult chain as = Inr (Some nr)"
    by (auto simp: fetchContractData_try_def Let_def split: if_splits sum.splits)
  from n assms(2) have "Some a \<in> set as"
    by (simp add: networkResult_assets filterBoolean_set)
  with p have "Inr (Some a) \<in> set (map fst ?m)"
    by (rule promiseAll_Inr_set)
  then obtain r where r: "r \<in> set urs" "hasBalance r"
      and m: "fst (mapReserve (Math_pow w) tkl rds r) = Inr (Some a)"
    by auto
  from mapReserve_Some [OF m] u d r show ?thesis by blast
qed

lemma collect_results:
  "collect w cps (res, c, evs) = (res', c', evs') \<Longrightarrow> nr \<in> set res' \<Longrightarrow>
     nr \<in> set res \<or>
     (\<exists>chain url c0 c1 e1. (chain, url) \<in> set cps \<and>
        fetchContractData w c0 chain (JsonRpcProvider w url) = (Some nr, c1, e1))"
proof (induction cps arbitrary: res c evs)
  case Nil
  then show ?case by simp
next
  case (Cons cp cps)
  obtain chain url where cp: "cp = (chain, url)" by (cases cp)
  obtain d c1 e1 where f: "fetchContractData w c chain (JsonRpcProvider w url) = (d, c1, e1)"
    by (cases "fetchContractData w c chain (JsonRpcProvider w url)") auto
  show ?case
  proof (cases d)
    case None
    with Cons.prems cp f have "collect w cps (res, c1, evs @ e1) = (res', c', evs')" by simp
    from Cons.IH [OF this Cons.prems(2)] show ?thesis by (simp add: cp) blast
  next
    case (Some x)
    with Cons.prems cp f have "collect w cps (res @ [x], c1, evs @ e1) = (res', c', evs')" by simp
    from Cons.IH [OF this Cons.prems(2)] f Some show ?thesis by (simp add: cp) blast
  qed
qed

lemma response_asset:
  assumes "fst (liquidityRates w c) = Json st results" and "nr \<in> set results"
    and "a \<in> set (assets nr)"
  shows "\<exists>chain url urs rds tkl r rd.
           (chain, url) \<in> set chainProviders \<and>
           getUserReservesHumanized (JsonRpcProvider w url) = RpcOk urs \<and>
           getReservesHumanized (JsonRpcProvider w url) = RpcOk rds \<and>
           r \<in> set urs \<and> hasBalance r \<and> findReserveData rds r = Some rd \<and>
           assetOf (Math_pow w) tkl r rd = Inr a"
proof -
  from assms(1) obtain evs0 c' evs where "collect w chainProviders ([], c, evs0) = (results, c', evs)"
    by (auto simp: liquidityRates_def split: prod.splits)
  from collect_results [OF this assms(2)] obtain chain url c0 c1 e1
    where m: "(chain, url) \<in> set chainProviders"
      and f: "fetchContractData w c0 chain (JsonRpcProvider w url) = (Some nr, c1, e1)"
    by auto
  from fetchContractData_asset [OF f assms(3)] m show ?thesis by blast
qed

lemma assetOf_balanceInUSD:
  "assetOf P tkl r rd = Inr a \<Longrightarrow> balanceInUSD a = fmul (tokenBalance a) (priceInUSD a)"
  by (auto simp: assetOf_def Let_def split: sum.splits)

lemma fetchContractData_rpc_failed:
  assumes "getUserReservesHumanized prov = RpcFailed \<or> getReservesHumanized prov = RpcFailed"
  shows "\<exists>e. fetchContractData w c chain prov =
           (None, c, [ConsoleError (''Error fetching contract data for '' @ chain @ '':'') e])"
  using assms
  by (auto simp: fetchContractData_def fetchContractData_try_def split: rpc.splits)

section \<open>The loop over the networks\<close>

lemma collect_none:
  assumes "\<forall>(chain, url) \<in> set cps. \<forall>c. fst (fetchContractData w c chain (JsonRpcProvider w url)) = None"
  shows "fst (collect w cps (rs, c, evs)) = rs"
  using assms
proof (induction cps arbitrary: c evs)
  case Nil
  then show ?case by simp
next
  case (Cons cp cps)
  obtain chain url where cp: "cp = (chain, url)" by (cases cp)
  obtain d c1 e1 where f: "fetchContractData w c chain (JsonRpcProvider w url) = (d, c1, e1)"
    by (cases "fetchContractData w c chain (JsonRpcProvider w url)") auto
  from Cons.prems cp have "fst (fetchContractData w c chain (JsonRpcProvider w url)) = None"
    by auto
  with f have d: "d = None" by simp
  from Cons.prems have "\<forall>(chain, url) \<in> set cps. \<forall>c. fst (fetchContractData w c chain (JsonRpcProvider w url)) = None"
    by simp
  from Cons.IH [OF this] show ?case by (simp add: cp f d)
qed

lemma liquidityRates_response:
  "fst (liquidityRates w c) = Json 200 (fst (collect w chainProviders ([], c, [ConsoleLog ''REQ''])))"
  by (cases "collect w chainProviders ([], c, [ConsoleLog ''REQ''])") (simp add: liquidityRates_def)

lemma collect_keeps: "set rs \<subseteq> set (fst (collect w cps (rs, c, evs)))"
proof (induction cps arbitrary: rs c evs)
  case Nil
  then show ?case by simp
next
  case (Cons cp cps)
  obtain chain url where cp: "cp = (chain, url)" by (cases cp)
  obtain d c1 e1 where f: "fetchContractData w c chain (JsonRpcProvider w url) = (d, c1, e1)"
    by (cases "fetchContractData w c chain (JsonRpcProvider w url)") auto
  show ?case
  proof (cases d)
    case None
    with Cons.IH [of rs c1 "evs @ e1"] show ?thesis by (simp add: cp f)
  next
    case (Some x)
    with Cons.IH [of "rs @ [x]" c1 "evs @ e1"] show ?thesis by (simp add: cp f)
  qed
qed

lemma fetchContractData_network:
  assumes "fst (fetchContractData w c chain prov) = Some nr"
  shows "network nr = chain"
proof -
  from assms obtain c1 e1 where "fetchContractData_try w c chain prov = (Inr (Some nr), c1, e1)"
    by (auto simp: fetchContractData_def split: prod.splits sum.splits)
  then obtain as where "networkResult chain as = Inr (Some nr)"
    by (auto simp: fetchContractData_try_def Let_def split: if_splits rpc.splits prod.splits sum.splits)
  then show ?thesis
    by (auto simp: networkResult_def split: if_splits option.splits sum.splits)
qed

lemma collect_reports:
  assumes "(chain, url) \<in> set cps"
    and "\<forall>c. fst (fetchContractData w c chain (JsonRpcProvider w url)) \<noteq> None"
  shows "\<exists>nr \<in> set (fst (collect w cps (rs, c, evs))). network nr = chain"
  using assms(1)
proof (induction cps arbitrary: rs c evs)
  case Nil
  then show ?case by simp
next
  case (Cons cp cps)
  obtain chain' url' where cp: "cp = (chain', url')" by (cases cp)
  obtain d c1 e1 where f: "fetchContractData w c chain' (JsonRpcProvider w url') = (d, c1, e1)"
    by (cases "fetchContractData w c chain' (JsonRpcProvider w url')") auto
  let ?rs = "case d of Some x \<Rightarrow> rs @ [x] | None \<Rightarrow> rs"
  have step: "collect w (cp # cps) (rs, c, evs) = collect w cps (?rs, c1, evs @ e1)"
    by (simp add: cp f split: option.splits)
  show ?case
  proof (cases "(chain, url) = cp")
    case True
    with cp f assms(2) obtain nr where d: "d = Some nr"
      by (metis fst_conv not_None_eq prod.inject)
    with True cp f have "network nr = chain"
      using fetchContractData_network [of w c chain "JsonRpcProvider w url" nr] by simp
    moreover have "nr \<in> set (fst (collect w cps (?rs, c1, evs @ e1)))"
      using collect_keeps [of ?rs w cps c1 "evs @ e1"] d by auto
    ultimately show ?thesis unfolding step by blast
  next
    case False
    with Cons.prems have "(chain, url) \<in> set cps" by simp
    from Cons.IH [OF this] show ?thesis unfolding step .
  qed
qed

section \<open>When a network is reported and when it is dropped\<close>

lemma promiseAll_Inr_map: "promiseAll ps = Inr xs \<Longrightarrow> ps = map Inr xs"
proof (induction ps arbitrary: xs rule: promiseAll.induct)
  case 1
  then show ?case by simp
next
  case (2 e ps)
  then show ?case by simp
next
  case (3 y ps)
  then show ?case by (auto split: sum.splits)
qed

lemma promiseAll_map_Inr: "promiseAll (map Inr xs) = Inr xs"
  by (induction xs) simp_all

lemma reduceBalance_None: "None \<in> set as \<Longrightarrow> reduceBalance acc as = Inl TypeError"
  by (induction acc as rule: reduceBalance.induct) auto

lemma reduceBalance_all_Some: "None \<notin> set as \<Longrightarrow> \<exists>t. reduceBalance acc as = Inr t"
  by (induction acc as rule: reduceBalance.induct) auto

lemma reduceBalance_map_Some:
  "reduceBalance acc (map Some as) = Inr (foldl fadd acc (map balanceInUSD as))"
  by (induction as arbitrary: acc) simp_all

lemma assetOf_succeeds:
  "decimals rd \<le> 256 \<Longrightarrow> \<exists>a. assetOf P tkl r rd = Inr a"
  by (simp add: assetOf_def normalizeBalance_def formatUnits_def Let_def)

lemma all_Inr_Some:
  "\<forall>x \<in> set xs. \<exists>a. f x = Inr (Some a) \<Longrightarrow> \<exists>as. map f xs = map Inr (map Some as) \<and> length as = length xs"
proof (induction xs)
  case Nil
  then show ?case by simp
next
  case (Cons x xs)
  then obtain a where a: "f x = Inr (Some a)" by auto
  from Cons obtain as where as: "map f xs = map Inr (map Some as)" "length as = length xs" by auto
  have "map f (x # xs) = map Inr (map Some (a # as)) \<and> length (a # as) = length (x # xs)"
    using a as by simp
  then show ?case by blast
qed

lemma filterBoolean_map_Some: "filterBoolean (map Some as) = as"
  by (induction as) (simp_all add: filterBoolean_def List.map_filter_simps)

lemma fetchContractData_Some:
  assumes m: "markets w (chainKey chain)" and meta: "networkMetadata chain \<noteq> None"
    and u: "getUserReservesHumanized prov = RpcOk urs"
    and d: "getReservesHumanized prov = RpcOk rds"
    and ne: "\<exists>r \<in> set urs. hasBalance r"
    and ok: "\<forall>r \<in> set urs. hasBalance r \<longrightarrow>
               (\<exists>rd. findReserveData rds r = Some rd \<and> decimals rd \<le> 256)"
  shows "fst (fetchContractData w c chain prov) \<noteq> None"
proof -
  obtain tkl c1 e1 where f: "fetchTokenList (fetch w) (Date_now w chain) c chain = (tkl, c1, e1)"
    by (cases "fetchTokenList (fetch w) (Date_now w chain) c chain") auto
  let ?rs = "filter hasBalance urs"
  let ?f = "\<lambda>r. fst (mapReserve (Math_pow w) tkl rds r)"
  have "\<forall>r \<in> set ?rs. \<exists>a. ?f r = Inr (Some a)"
  proof
    fix r assume "r \<in> set ?rs"
    with ok obtain rd where rd: "findReserveData rds r = Some rd" "decimals rd \<le> 256" by auto
    from assetOf_succeeds [OF rd(2)] obtain a where "assetOf (Math_pow w) tkl r rd = Inr a" by blast
    with rd(1) show "\<exists>a. ?f r = Inr (Some a)"
      by (simp add: mapReserve_def)
  qed
  from all_Inr_Some [OF this] obtain as
    where as: "map ?f ?rs = map Inr (map Some as)" and len: "length as = length ?rs"
    by blast
  from ne have "?rs \<noteq> []" by (auto simp: filter_empty_conv)
  with len have ne': "as \<noteq> []" by auto
  have "map fst (map (mapReserve (Math_pow w) tkl rds) ?rs) = map ?f ?rs" by simp
  with as have "map fst (map (mapReserve (Math_pow w) tkl rds) ?rs) = map Inr (map Some as)"
    by (simp only:)
  then have p: "promiseAll (map fst (map (mapReserve (Math_pow w) tkl rds) ?rs)) = Inr (map Some as)"
    by (simp only: promiseAll_map_Inr)
  from meta obtain mt where mt: "networkMetadata chain = Some mt" by auto
  obtain t where t: "reduceBalance (Num 0) (map Some as) = Inr t"
    using reduceBalance_all_Some [of "map Some as" "Num 0"] by auto
  have n: "\<exists>nr. networkResult chain (map Some as) = Inr (Some nr)"
    using ne' mt t by (simp add: networkResult_def filterBoolean_map_Some)
  then obtain nr where "networkResult chain (map Some as) = Inr (Some nr)" ..
  with m u d f p show ?thesis
    by (simp add: fetchContractData_def fetchContractData_try_def Let_def)
qed

lemma fetchContractData_unmatched:
  assumes m: "markets w (chainKey chain)"
    and u: "getUserReservesHumanized prov = RpcOk urs"
    and d: "getReservesHumanized prov = RpcOk rds"
    and r: "r \<in> set urs" "hasBalance r" "findReserveData rds r = None"
    and r': "r' \<in> set urs" "hasBalance r'" "findReserveData rds r' \<noteq> None"
  shows "\<exists>c' evs e. fetchContractData w c chain prov =
           (None, c', evs @ [ConsoleError (''Error fetching contract data for '' @ chain @ '':'') e])"
proof -
  obtain tkl c1 e1 where f: "fetchTokenList (fetch w) (Date_now w chain) c chain = (tkl, c1, e1)"
    by (cases "fetchTokenList (fetch w) (Date_now w chain) c chain") auto
  let ?rs = "filter hasBalance urs"
  let ?m = "map (mapReserve (Math_pow w) tkl rds) ?rs"
  have "\<exists>e. fst (fetchContractData_try w c chain prov) = Inl e"
  proof (cases "promiseAll (map fst ?m)")
    case (Inl e)
    with m u d f show ?thesis by (simp add: fetchContractData_try_def Let_def)
  next
    case (Inr as)
    then have as: "map fst ?m = map Inr as" by (rule promiseAll_Inr_map)
    have "fst (mapReserve (Math_pow w) tkl rds r) = Inr None"
      using r(3) by (simp add: mapReserve_def)
    moreover have "r \<in> set ?rs" using r by simp
    ultimately have "Inr None \<in> set (map fst ?m)" by force
    with as have none: "None \<in> set as" by auto
    obtain x where x: "fst (mapReserve (Math_pow w) tkl rds r') = Inr x"
    proof -
      have "r' \<in> set ?rs" using r' by simp
      then have "fst (mapReserve (Math_pow w) tkl rds r') \<in> set (map fst ?m)" by force
      with as that show ?thesis by auto
    qed
    with r'(3) obtain a where "x = Some a"
      by (auto simp: mapReserve_def split: option.splits sum.splits)
    with x have "Inr (Some a) \<in> set (map fst ?m)" using r' by force
    with as have "Some a \<in> set as" by auto
    then have "a \<in> set (filterBoolean as)" by (simp add: filterBoolean_set)
    then have "0 < length (filterBoolean as)" by (cases "filterBoolean as") auto
    then have "\<exists>e. networkResult chain as = Inl e"
      using reduceBalance_None [OF none, of "Num 0"]
      by (simp add: networkResult_def split: option.splits)
    with m u d f Inr show ?thesis by (auto simp: fetchContractData_try_def Let_def)
  qed
  then show ?thesis
    by (auto simp: fetchContractData_def split: prod.splits sum.splits)
qed

section \<open>Balances\<close>

lemma bn_div_nonneg: "0 \<le> a \<Longrightarrow> 0 < b \<Longrightarrow> bn_div a b = a div b"
  by (cases "a = 0") (simp_all add: bn_div_def)

lemma rawBalance_nonneg:
  "0 \<le> s \<Longrightarrow> 0 \<le> i \<Longrightarrow> rawBalance s i = s * i div 10 ^ 27"
  by (simp add: rawBalance_def bn_div_nonneg)

lemma rawBalance_pos:
  assumes "0 < s" and "10 ^ 27 \<le> i"
  shows "1 \<le> rawBalance s i"
proof -
  from assms have "1 * 10 ^ 27 \<le> s * i" by (intro mult_mono) simp_all
  then have "(10::int) ^ 27 div 10 ^ 27 \<le> s * i div 10 ^ 27" by (intro zdiv_mono1) simp_all
  moreover from assms have "rawBalance s i = s * i div 10 ^ 27" by (intro rawBalance_nonneg) simp_all
  ultimately show ?thesis by simp
qed

lemma normalizeBalance_Inr:
  "normalizeBalance b d = Inr x \<longleftrightarrow> d \<le> 256 \<and> x = round64 (of_int b / 10 ^ d)"
  by (auto simp: normalizeBalance_def formatUnits_def parseFloat_def)

lemma normalizeBalance_pos:
  assumes "normalizeBalance b d = Inr x" and "1 \<le> b"
  shows "fgt x (Num 0)"
proof -
  from assms(1) have d: "d \<le> 256" and x: "x = round64 (of_int b / 10 ^ d)"
    by (simp_all add: normalizeBalance_Inr)
  have "power_int (2::rat) (- 1075) < 1 / 10 ^ 256" by (simp add: power_int_minus field_simps)
  also have "\<dots> \<le> 1 / 10 ^ d"
    using d by (intro divide_left_mono power_increasing) simp_all
  also have "\<dots> \<le> of_int b / 10 ^ d"
    using assms(2) by (intro divide_right_mono) simp_all
  finally show ?thesis unfolding x by (rule round64_pos)
qed

lemma assetOf_tokenBalance:
  "assetOf P tkl r rd = Inr a \<Longrightarrow>
     normalizeBalance (rawBalance (scaledATokenBalance r) (liquidityIndex rd)) (decimals rd)
       = Inr (tokenBalance a)"
  by (auto simp: assetOf_def Let_def split: sum.splits)

lemma findReserveData_Some:
  "findReserveData rds r = Some rd \<Longrightarrow>
     rd \<in> set rds \<and> toLowerCase (rd_underlyingAsset rd) = toLowerCase (ur_underlyingAsset r)"
  by (auto simp: findReserveData_def find_Some_iff)

lemma response_mainnet:
  assumes d: "fst (fetchContractData w c ''ethereum'' (JsonRpcProvider w ''https://eth-mainnet.public.blastapi.io'')) = d"
    and down: "\<forall>url. url \<noteq> ''https://eth-mainnet.public.blastapi.io'' \<longrightarrow>
                 getUserReservesHumanized (JsonRpcProvider w url) = RpcFailed"
  shows "fst (liquidityRates w c) = Json 200 (case d of Some x \<Rightarrow> [x] | None \<Rightarrow> [])"
proof -
  let ?rest = "[(''polygon'', ''https://polygon-mainnet.public.blastapi.io''),
      (''avalanche'', ''https://ava-mainnet.public.blastapi.io/ext/bc/C/rpc''),
      (''base'', ''https://base-mainnet.public.blastapi.io''),
      (''arbitrum'', ''https://arbitrum-one.public.blastapi.io''),
      (''optimism'', ''https://optimism-mainnet.public.blastapi.io'')]"
  have none: "fst (fetchContractData w c' chain (JsonRpcProvider w url)) = None"
    if "url \<noteq> ''https://eth-mainnet.public.blastapi.io''" for c' chain url
    using fetchContractData_rpc_failed [of "JsonRpcProvider w url" w c' chain] down that by auto
  have rest: "\<forall>(chain, url) \<in> set ?rest. \<forall>c'.
      fst (fetchContractData w c' chain (JsonRpcProvider w url)) = None"
    by (simp add: none)
  obtain c1 e1 where f: "fetchContractData w c ''ethereum''
      (JsonRpcProvider w ''https://eth-mainnet.public.blastapi.io'') = (d, c1, e1)"
    using d by (cases "fetchContractData w c ''ethereum''
      (JsonRpcProvider w ''https://eth-mainnet.public.blastapi.io'')") auto
  let ?rs = "case d of Some x \<Rightarrow> [x] | None \<Rightarrow> []"
  have "collect w chainProviders ([], c, [ConsoleLog ''REQ'']) =
      collect w ?rest (?rs, c1, [ConsoleLog ''REQ''] @ e1)"
    unfolding chainProviders_def
    by (subst collect.simps(2)) (simp add: f del: collect.simps split: option.splits)
  then have "fst (collect w chainProviders ([], c, [ConsoleLog ''REQ''])) =
      fst (collect w ?rest (?rs, c1, [ConsoleLog ''REQ''] @ e1))"
    by simp
  also have "\<dots> = ?rs" using rest by (rule collect_none)
  finally show ?thesis by (simp add: liquidityRates_response)
qed

text \<open>The product of two finite numbers is the exact product, rounded.\<close>

lemma assetOf_rounded:
  assumes "assetOf P tkl r rd = Inr a"
  shows "(\<exists>x. tokenBalance a = round64 x) \<and> (\<exists>y. priceInUSD a = round64 y)"
  using assms
  by (auto simp: assetOf_def normalizeBalance_def formatUnits_def parseFloat_def Let_def
      split: sum.splits if_splits)

lemma fmul_finite:
  "(\<exists>b. fmul (Num t) (Num p) = Num b \<and> \<bar>b - t * p\<bar> \<le> max (\<bar>t * p\<bar> / 2 ^ 53) (1 / 2 ^ 1075)) \<or>
   (2 ^ 1023 \<le> \<bar>t * p\<bar> \<and> fmul (Num t) (Num p) = (if 0 < t * p then PosInfinity else NegInfinity))"
proof (cases "\<exists>b. round64 (t * p) = Num b")
  case True
  then obtain b where b: "round64 (t * p) = Num b" ..
  from round64_error [OF b] b show ?thesis by simp
next
  case False
  then have "\<forall>b. round64 (t * p) \<noteq> Num b" by simp
  from round64_overflow [OF this] show ?thesis by simp
qed

section \<open>The token list cache\<close>

lemma buildTokenMap_Inl_iff:
  "(\<exists>e. buildTokenMap m tokens = Inl e) \<longleftrightarrow> (\<exists>t \<in> set tokens. tk_symbol t = None)"
proof (induction tokens arbitrary: m)
  case Nil
  then show ?case by simp
next
  case (Cons token tokens)
  show ?case
  proof (cases "tk_symbol token")
    case None
    then show ?thesis by simp
  next
    case (Some s)
    let ?m = "m(toUpperCase s \<mapsto>
      \<lparr>tm_name = tk_name token, tm_symbol = tk_symbol token, tm_image_url = logoURI token\<rparr>)"
    have step: "buildTokenMap m (token # tokens) = buildTokenMap ?m tokens"
      using Some by simp
    have "(\<exists>e. buildTokenMap m (token # tokens) = Inl e) \<longleftrightarrow> (\<exists>e. buildTokenMap ?m tokens = Inl e)"
      by (simp only: step)
    also have "\<dots> \<longleftrightarrow> (\<exists>t \<in> set tokens. tk_symbol t = None)"
      by (rule Cons.IH)
    also have "\<dots> \<longleftrightarrow> (\<exists>t \<in> set (token # tokens). tk_symbol t = None)"
      using Some by simp
    finally show ?thesis .
  qed
qed

lemma fetchTokenMap_Inl_iff:
  "(\<exists>e. fetchTokenMap outcome = Inl e) \<longleftrightarrow>
     outcome = Rejected \<or>
     (\<exists>st body. outcome = Response False st body) \<or>
     (\<exists>st. outcome = Response True st JsonInvalid) \<or>
     (\<exists>st. outcome = Response True st (JsonDoc None)) \<or>
     (\<exists>st tokens. outcome = Response True st (JsonDoc (Some tokens)) \<and>
        (\<exists>t \<in> set tokens. tk_symbol t = None))"
proof (cases outcome)
  case Rejected
  then show ?thesis by (simp add: fetchTokenMap_def)
next
  case (Response ok st body)
  show ?thesis
  proof (cases ok)
    case False
    with Response show ?thesis by (simp add: fetchTokenMap_def)
  next
    case True
    show ?thesis
    proof (cases body)
      case JsonInvalid
      with Response True show ?thesis by (simp add: fetchTokenMap_def)
    next
      case (JsonDoc doc)
      with Response True show ?thesis
        by (cases doc) (simp_all add: fetchTokenMap_def buildTokenMap_Inl_iff)
    qed
  qed
qed

lemma fetchTokenList_hit:
  "cacheHit c (fst clk) n = Some m \<Longrightarrow> fetchTokenList f clk c n = (m, c, [])"
  by (simp add: fetchTokenList_def)

lemma fetchTokenList_stored:
  "cacheHit c (fst clk) n = None \<Longrightarrow> fetchTokenMap (f (tokenListUrls n)) = Inr m \<Longrightarrow>
     fetchTokenList f clk c n =
       (m, c(n \<mapsto> \<lparr>data = m, timestamp = snd clk\<rparr>), [HttpGet (tokenListUrls n)])"
  by (simp add: fetchTokenList_def)

lemma fetchTokenList_failed:
  "cacheHit c (fst clk) n = None \<Longrightarrow> fetchTokenMap (f (tokenListUrls n)) = Inl e \<Longrightarrow>
     fetchTokenList f clk c n =
       (Map.empty, c,
        [HttpGet (tokenListUrls n),
         ConsoleWarn (''Could not fetch token list for '' @ n @ '', using fallback or empty list'')])"
  by (simp add: fetchTokenList_def)

lemma cacheHit_upd:
  "cacheHit (c(n \<mapsto> \<lparr>data = m, timestamp = t\<rparr>)) now n =
     (if now - t < CACHE_DURATION then Some m else None)"
  by (simp add: cacheHit_def)

lemma cacheHit_later:
  "cacheHit c now n = None \<Longrightarrow> now \<le> now' \<Longrightarrow> cacheHit c now' n = None"
  by (auto simp: cacheHit_def split: option.splits if_splits)

section \<open>The example requests, evaluated\<close>

lemma round64_00105: "round64 (105 / 100000) = Num (4842270319348757 / 2 ^ 62)"
  using round64_near [of "105 / 100000" "- 10" 4842270319348757] by simp

lemma round64_00105_exact:
  "round64 (4842270319348757 / 2 ^ 62) = Num (4842270319348757 / 2 ^ 62)"
  using round64_near [of "4842270319348757 / 2 ^ 62" "- 10" 4842270319348757] by simp

lemma round64_1: "round64 1 = Num 1"
  using round64_near [of 1 0 "2 ^ 52"] by simp

lemma round64_1e27: "round64 (10 ^ 27) = Num 1000000000000000013287555072"
  using round64_near [of "10 ^ 27" 89 "1000000000000000013287555072 div 2 ^ 37"] by simp

lemma ex_raw: "rawBalance 1000 1050000000000000000000000000 = 1050"
  by (simp add: rawBalance_def bn_div_def)

lemma ex_norm: "normalizeBalance 1050 6 = Inr (Num (4842270319348757 / 2 ^ 62))"
  using round64_00105 by (simp add: normalizeBalance_def formatUnits_def parseFloat_def)

lemma ex_price: "normalizeBalance 100000000 8 = Inr (Num 1)"
  by (simp add: normalizeBalance_def formatUnits_def parseFloat_def round64_1)

lemma ex_apy: "liquidityRateAPY pow_rounded 0 = Num 0"
  using round64_1e27
  by (simp add: liquidityRateAPY_def parseFloat_def round64_0 round64_1 fsub_def fneg_def pow_rounded_def)

lemma ex_fallback: "tokenMetadataFor Map.empty s = \<lparr>tm_name = Some s, tm_symbol = Some s, tm_image_url = Some placeholderImage\<rparr>"
  by (simp add: tokenMetadataFor_def)

lemma ex_assetOf: "assetOf pow_rounded Map.empty usdcPosition usdcReserve = Inr usdcAsset"
  using round64_00105_exact
  by (simp add: assetOf_def usdcPosition_def usdcReserve_def usdcAsset_def ex_raw ex_norm ex_price
      ex_apy ex_fallback round64_1)


lemma ex_find: "findReserveData [usdcReserve] usdcPosition = Some usdcReserve"
  by (simp add: findReserveData_def usdcReserve_def usdcPosition_def toLowerCase_def toLowerChar_def)

lemma ex_mapReserve: "mapReserve pow_rounded Map.empty [usdcReserve] usdcPosition = (Inr (Some usdcAsset), [])"
  by (simp add: mapReserve_def ex_find ex_assetOf)


lemma ex_hasBalance: "hasBalance usdcPosition"
  by (simp add: hasBalance_iff usdcPosition_def)

lemma ex_key: "chainKey ''ethereum'' = ''AaveV3Ethereum''"
  by (simp add: chainKey_def toUpperCase_def toUpperChar_def)

lemma ex_tokenList:
  "fetchTokenList (\<lambda>url. Rejected) clk Map.empty n =
     (Map.empty, Map.empty,
      [HttpGet (tokenListUrls n),
       ConsoleWarn (''Could not fetch token list for '' @ n @ '', using fallback or empty list'')])"
  by (simp add: fetchTokenList_def cacheHit_def fetchTokenMap_def)

lemma ex_sum: "fadd (Num 0) (Num (4842270319348757 / 2 ^ 62)) = Num (4842270319348757 / 2 ^ 62)"
  using round64_00105_exact by simp

lemma ex_total: "reduceBalance (Num 0) [Some usdcAsset] = Inr (Num (4842270319348757 / 2 ^ 62))"
proof -
  have "balanceInUSD usdcAsset = Num (4842270319348757 / 2 ^ 62)"
    by (simp add: usdcAsset_def)
  then show ?thesis by (simp only: reduceBalance.simps ex_sum)
qed

lemma ex_networkResult: "networkResult ''ethereum'' [Some usdcAsset] = Inr (Some ethereumResult)"
  by (simp add: networkResult_def filterBoolean_def List.map_filter_simps networkMetadata_def
      ex_total ethereumResult_def del: reduceBalance.simps)

lemma ex_ethereum:
  "fetchContractData mainnetOnly Map.empty ''ethereum''
     (JsonRpcProvider mainnetOnly ''https://eth-mainnet.public.blastapi.io'') =
   (Some ethereumResult, Map.empty,
    [HttpGet (tokenListUrls ''ethereum''),
     ConsoleWarn ''Could not fetch token list for ethereum, using fallback or empty list''])"
  by (simp add: fetchContractData_def fetchContractData_try_def mainnetOnly_def ex_key ex_tokenList
      ex_hasBalance ex_mapReserve ex_networkResult)

lemma ex_response: "fst (liquidityRates mainnetOnly Map.empty) = Json 200 [ethereumResult]"
proof -
  have "fst (fetchContractData mainnetOnly Map.empty ''ethereum''
     (JsonRpcProvider mainnetOnly ''https://eth-mainnet.public.blastapi.io'')) = Some ethereumResult"
    by (simp add: ex_ethereum)
  from response_mainnet [OF this] show ?thesis by (simp add: mainnetOnly_def)
qed

lemma ex_find_weth: "findReserveData [usdcReserve] wethPosition = None"
  by (simp add: findReserveData_def usdcReserve_def wethPosition_def toLowerCase_def toLowerChar_def)

lemma ex_hasBalance_weth: "hasBalance wethPosition"
  by (simp add: hasBalance_iff wethPosition_def)

lemma ex_mapReserve_weth:
  "mapReserve P tkl [usdcReserve] wethPosition =
     (Inr None, [ConsoleLog ''No reserve data found for 0xC02aaA39b223FE8D0A0e5C4F27eAD9083C756Cc2''])"
  by (simp add: mapReserve_def ex_find_weth) (simp add: wethPosition_def)

lemma ex_networkResult_null: "networkResult ''ethereum'' [Some usdcAsset, None] = Inl TypeError"
  by (simp add: networkResult_def filterBoolean_def List.map_filter_simps networkMetadata_def)

lemma ex_unlisted:
  "fetchContractData unlistedPosition Map.empty ''ethereum''
     (JsonRpcProvider unlistedPosition ''https://eth-mainnet.public.blastapi.io'') =
   (None, Map.empty,
    [HttpGet (tokenListUrls ''ethereum''),
     ConsoleWarn ''Could not fetch token list for ethereum, using fallback or empty list'',
     ConsoleLog ''No reserve data found for 0xC02aaA39b223FE8D0A0e5C4F27eAD9083C756Cc2'',
     ConsoleError ''Error fetching contract data for ethereum:'' TypeError])"
  by (simp add: fetchContractData_def fetchContractData_try_def unlistedPosition_def mainnetOnly_def
      ex_key ex_tokenList ex_hasBalance ex_hasBalance_weth ex_mapReserve ex_mapReserve_weth
      ex_networkResult_null)

lemma ex_zero_assetOf:
  "assetOf pow_rounded Map.empty usdcPosition (usdcReserve\<lparr>liquidityIndex := 0\<rparr>) = Inr zeroAsset"
  by (simp add: assetOf_def usdcPosition_def usdcReserve_def usdcAsset_def zeroAsset_def rawBalance_def
      bn_div_def normalizeBalance_def formatUnits_def parseFloat_def round64_0 round64_1 ex_apy
      ex_fallback)

lemma ex_zero_find:
  "findReserveData [usdcReserve\<lparr>liquidityIndex := 0\<rparr>] usdcPosition = Some (usdcReserve\<lparr>liquidityIndex := 0\<rparr>)"
  by (simp add: findReserveData_def usdcReserve_def usdcPosition_def toLowerCase_def toLowerChar_def)

lemma ex_zero_networkResult:
  "networkResult ''ethereum'' [Some zeroAsset] =
     Inr (Some (ethereumResult\<lparr>assets := [zeroAsset], totalBalanceUSD := Num 0\<rparr>))"
  by (simp add: networkResult_def filterBoolean_def List.map_filter_simps networkMetadata_def
      ethereumResult_def zeroAsset_def round64_0)

lemma ex_zero_ethereum:
  "fst (fetchContractData zeroIndex Map.empty ''ethereum''
     (JsonRpcProvider zeroIndex ''https://eth-mainnet.public.blastapi.io'')) =
   Some (ethereumResult\<lparr>assets := [zeroAsset], totalBalanceUSD := Num 0\<rparr>)"
  by (simp add: fetchContractData_def fetchContractData_try_def zeroIndex_def mainnetOnly_def
      ex_key ex_tokenList ex_hasBalance mapReserve_def ex_zero_find ex_zero_assetOf
      ex_zero_networkResult)

lemma ex_zero_response:
  "fst (liquidityRates zeroIndex Map.empty) =
     Json 200 [ethereumResult\<lparr>assets := [zeroAsset], totalBalanceUSD := Num 0\<rparr>]"
  using response_mainnet [OF ex_zero_ethereum] by (simp add: zeroIndex_def mainnetOnly_def)

lemma ex_unlisted_response: "fst (liquidityRates unlistedPosition Map.empty) = Json 200 []"
proof -
  have "fst (fetchContractData unlistedPosition Map.empty ''ethereum''
     (JsonRpcProvider unlistedPosition ''https://eth-mainnet.public.blastapi.io'')) = None"
    by (simp add: ex_unlisted)
  from response_mainnet [OF this] show ?thesis by (simp add: unlistedPosition_def mainnetOnly_def)
qed

lemma ex_served: "fetchTokenMap (tokenListServed url) = Inr [''USDC'' \<mapsto> usdcMetadata]"
  by (simp add: fetchTokenMap_def tokenListServed_def usdcToken_def usdcMetadata_def
      toUpperCase_def toUpperChar_def)

lemma ex_tokenListDown: "fetchTokenMap (tokenListDown url) = Inl (HttpError 503)"
  by (simp add: fetchTokenMap_def tokenListDown_def)

lemma ex_first_fetch:
  "fetchTokenList tokenListServed (t, t') Map.empty ''ethereum'' =
     ([''USDC'' \<mapsto> usdcMetadata], cachedAt t', [HttpGet (tokenListUrls ''ethereum'')])"
  using fetchTokenList_stored [of Map.empty "(t, t')" "''ethereum''" tokenListServed, OF _ ex_served]
  by (simp add: cacheHit_def cachedAt_def)

lemma ex_cachedAt:
  "cacheHit (cachedAt t) now ''ethereum'' =
     (if now - t < CACHE_DURATION then Some [''USDC'' \<mapsto> usdcMetadata] else None)"
  by (simp add: cachedAt_def cacheHit_upd)

lemma round64_51: "round64 (51 / 10) = Num (2871044762448691 / 2 ^ 49)"
  using round64_near [of "51 / 10" 2 5742089524897382] by simp

lemma round64_351234: "round64 (351234 / 100) = Num (965464667675689 / 2 ^ 38)"
  using round64_near [of "351234 / 100" 11 7723717341405512] by simp

lemma round64_weth_product:
  "round64 (2871044762448691 / 2 ^ 49 * (965464667675689 / 2 ^ 38)) = Num (2461934902573007 / 2 ^ 37)"
  using round64_near [of "2871044762448691 / 2 ^ 49 * (965464667675689 / 2 ^ 38)" 14 4923869805146014]
  by simp

lemma round64_weth_total:
  "round64 (2461934902573007 / 2 ^ 37) = Num (2461934902573007 / 2 ^ 37)"
  using round64_near [of "2461934902573007 / 2 ^ 37" 14 4923869805146014] by simp

lemma ex_weth_raw: "rawBalance 5000000000000000000 1020000000000000000000000000 = 5100000000000000000"
  by (simp add: rawBalance_def bn_div_def)

lemma ex_weth_norm: "normalizeBalance 5100000000000000000 18 = Inr (Num (2871044762448691 / 2 ^ 49))"
  using round64_51 by (simp add: normalizeBalance_def formatUnits_def parseFloat_def)

lemma ex_weth_price: "normalizeBalance 351234000000 8 = Inr (Num (965464667675689 / 2 ^ 38))"
  using round64_351234 by (simp add: normalizeBalance_def formatUnits_def parseFloat_def)

lemma ex_weth_fmul:
  "fmul (Num (2871044762448691 / 2 ^ 49)) (Num (965464667675689 / 2 ^ 38)) =
     Num (2461934902573007 / 2 ^ 37)"
  using round64_weth_product by simp

lemma ex_weth_assetOf: "assetOf pow_rounded Map.empty wethPosition wethReserve = Inr wethAsset"
proof -
  have "assetOf pow_rounded Map.empty wethPosition wethReserve =
    Inr \<lparr>underlyingAsset = ur_underlyingAsset wethPosition,
         symbol = rd_symbol wethReserve,
         name = Some (rd_symbol wethReserve),
         tokenBalance = Num (2871044762448691 / 2 ^ 49),
         priceInUSD = Num (965464667675689 / 2 ^ 38),
         balanceInUSD = fmul (Num (2871044762448691 / 2 ^ 49)) (Num (965464667675689 / 2 ^ 38)),
         liquidityRate = Num 0,
         image_url = Some placeholderImage\<rparr>"
    by (simp add: assetOf_def ex_fallback ex_apy ex_weth_norm ex_weth_price
        wethPosition_def wethReserve_def ex_weth_raw del: fmul.simps)
  then show ?thesis
    by (simp only: ex_weth_fmul) (simp add: wethAsset_def wethPosition_def wethReserve_def)
qed

lemma ex_weth_find: "findReserveData [wethReserve] wethPosition = Some wethReserve"
  by (simp add: findReserveData_def wethReserve_def wethPosition_def toLowerCase_def toLowerChar_def)

lemma ex_weth_total: "reduceBalance (Num 0) [Some wethAsset] = Inr (Num (2461934902573007 / 2 ^ 37))"
proof -
  have "balanceInUSD wethAsset = Num (2461934902573007 / 2 ^ 37)"
    by (simp add: wethAsset_def)
  moreover have "fadd (Num 0) (Num (2461934902573007 / 2 ^ 37)) = Num (2461934902573007 / 2 ^ 37)"
    using round64_weth_total by simp
  ultimately show ?thesis by (simp only: reduceBalance.simps)
qed

lemma ex_weth_networkResult: "networkResult ''ethereum'' [Some wethAsset] = Inr (Some wethResult)"
  by (simp add: networkResult_def filterBoolean_def List.map_filter_simps networkMetadata_def
      ex_weth_total wethResult_def del: reduceBalance.simps)

lemma ex_weth_response: "fst (liquidityRates wethMarket Map.empty) = Json 200 [wethResult]"
proof -
  have "fst (fetchContractData wethMarket Map.empty ''ethereum''
     (JsonRpcProvider wethMarket ''https://eth-mainnet.public.blastapi.io'')) = Some wethResult"
    by (simp add: fetchContractData_def fetchContractData_try_def wethMarket_def mainnetOnly_def
      ex_key ex_tokenList ex_hasBalance_weth mapReserve_def ex_weth_find ex_weth_assetOf
      ex_weth_networkResult)
  from response_mainnet [OF this] show ?thesis by (simp add: wethMarket_def mainnetOnly_def)
qed

section \<open>The claims\<close>

text \<open>
  C1: with at least one surviving asset, \<open>totalBalanceUSD\<close> is the sum over the list before
  the nulls are removed, a null counting as 0. Over a list without nulls the \<open>reduce\<close> of
  line 171 is that sum, from the left. Of a null it reads \<open>balanceInUSD\<close> instead: with a
  USDC position that has market data and a WETH position that has none, it raises, the
  \<open>catch\<close> logs the error and the network is gone from the response.
\<close>

theorem total_over_null_asset_raises:
  "reduceBalance (Num 0) (map Some as) = Inr (foldl fadd (Num 0) (map balanceInUSD as)) \<and>
   filterBoolean [Some usdcAsset, None] = [usdcAsset] \<and>
   networkResult ''ethereum'' [Some usdcAsset, None] = Inl TypeError \<and>
   fetchContractData unlistedPosition Map.empty ''ethereum''
       (JsonRpcProvider unlistedPosition ''https://eth-mainnet.public.blastapi.io'') =
     (None, Map.empty,
      [HttpGet (tokenListUrls ''ethereum''),
       ConsoleWarn ''Could not fetch token list for ethereum, using fallback or empty list'',
       ConsoleLog ''No reserve data found for 0xC02aaA39b223FE8D0A0e5C4F27eAD9083C756Cc2'',
       ConsoleError ''Error fetching contract data for ethereum:'' TypeError]) \<and>
   fst (liquidityRates unlistedPosition Map.empty) = Json 200 []"
  by (simp add: reduceBalance_map_Some ex_networkResult_null ex_unlisted ex_unlisted_response
      filterBoolean_def List.map_filter_simps)

text \<open>
  C2: a user reserve with positive scaled balance and no market data is skipped with a
  diagnostic and left out, without an error, and the other assets of the network are
  returned. The code does so only when no reserve of the network has market data. As
  soon as another positive reserve has some, the null of the skipped one reaches the
  \<open>reduce\<close> of line 171 (or a sibling fails first): \<open>fetchContractData\<close> logs an error and
  returns null, so none of the network's assets is returned.
\<close>

theorem unmatched_reserve_drops_network:
  assumes "markets w (chainKey chain)"
    and "getUserReservesHumanized prov = RpcOk userReserves"
    and "getReservesHumanized prov = RpcOk reservesData"
    and "reserve \<in> set userReserves" and "0 < scaledATokenBalance reserve"
    and "findReserveData reservesData reserve = None"
    and "other \<in> set userReserves" and "0 < scaledATokenBalance other"
    and "findReserveData reservesData other \<noteq> None"
  shows "\<exists>cache' evs e. fetchContractData w cache chain prov =
           (None, cache', evs @ [ConsoleError (''Error fetching contract data for '' @ chain @ '':'') e])"
  using assms by (intro fetchContractData_unmatched) (simp_all add: hasBalance_iff)

theorem unmatched_reserve_drops_network_witness:
  "\<exists>cache' evs e.
     fetchContractData unlistedPosition Map.empty ''ethereum''
       \<lparr>getUserReservesHumanized = RpcOk [usdcPosition, wethPosition],
        getReservesHumanized = RpcOk [usdcReserve]\<rparr> =
     (None, cache', evs @ [ConsoleError (''Error fetching contract data for '' @ ''ethereum'' @ '':'') e])"
proof (rule unmatched_reserve_drops_network)
  show "markets unlistedPosition (chainKey ''ethereum'')"
    by (simp add: ex_key unlistedPosition_def mainnetOnly_def)
  show "getUserReservesHumanized \<lparr>getUserReservesHumanized = RpcOk [usdcPosition, wethPosition],
      getReservesHumanized = RpcOk [usdcReserve]\<rparr> = RpcOk [usdcPosition, wethPosition]"
    by simp
  show "getReservesHumanized \<lparr>getUserReservesHumanized = RpcOk [usdcPosition, wethPosition],
      getReservesHumanized = RpcOk [usdcReserve]\<rparr> = RpcOk [usdcReserve]"
    by simp
  show "wethPosition \<in> set [usdcPosition, wethPosition]" by simp
  show "0 < scaledATokenBalance wethPosition" by (simp add: wethPosition_def)
  show "findReserveData [usdcReserve] wethPosition = None" by (rule ex_find_weth)
  show "usdcPosition \<in> set [usdcPosition, wethPosition]" by simp
  show "0 < scaledATokenBalance usdcPosition" by (simp add: usdcPosition_def)
  show "findReserveData [usdcReserve] usdcPosition \<noteq> None" by (simp add: ex_find)
qed

text \<open>
  C3, as claimed: every asset entry of the HTTP response has \<open>tokenBalance > 0\<close>. The
  filter of line 122 tests the scaled balance, not the balance; with a liquidity index of
  0 the scaled balance 1000 gives the entry a \<open>tokenBalance\<close> of 0.
\<close>

theorem tokenBalance_zero_counterexample:
  "fst (liquidityRates zeroIndex Map.empty) =
     Json 200 [ethereumResult\<lparr>assets := [zeroAsset], totalBalanceUSD := Num 0\<rparr>] \<and>
   tokenBalance zeroAsset = Num 0 \<and>
   \<not> fgt (tokenBalance zeroAsset) (Num 0)"
  by (simp add: ex_zero_response zeroAsset_def)

text \<open>
  C3, amended: when every market reserve the data provider returns has a liquidity index
  of at least one ray (\<open>10 ^ 27\<close>, where the protocol starts it), every asset entry of the
  HTTP response has \<open>tokenBalance > 0\<close>.
\<close>

theorem response_tokenBalance_positive:
  assumes "fst (liquidityRates w c) = Json st results"
    and "nr \<in> set results"
    and "a \<in> set (assets nr)"
    and "\<forall>(chain, url) \<in> set chainProviders. \<forall>reservesData.
           getReservesHumanized (JsonRpcProvider w url) = RpcOk reservesData \<longrightarrow>
           (\<forall>rd \<in> set reservesData. 10 ^ 27 \<le> liquidityIndex rd)"
  shows "fgt (tokenBalance a) (Num 0)"
proof -
  from response_asset [OF assms(1-3)] obtain chain url urs rds tkl r rd
    where cu: "(chain, url) \<in> set chainProviders"
      and rds: "getReservesHumanized (JsonRpcProvider w url) = RpcOk rds"
      and r: "hasBalance r" and f: "findReserveData rds r = Some rd"
      and a: "assetOf (Math_pow w) tkl r rd = Inr a"
    by blast
  from f have "rd \<in> set rds" by (simp add: findReserveData_Some)
  with assms(4) cu rds have "10 ^ 27 \<le> liquidityIndex rd" by blast
  moreover from r have "0 < scaledATokenBalance r" by (simp add: hasBalance_iff)
  ultimately have "1 \<le> rawBalance (scaledATokenBalance r) (liquidityIndex rd)"
    by (intro rawBalance_pos)
  with assetOf_tokenBalance [OF a] show ?thesis by (rule normalizeBalance_pos)
qed

theorem response_tokenBalance_positive_witness:
  "fst (liquidityRates mainnetOnly Map.empty) = Json 200 [ethereumResult] \<and>
   usdcAsset \<in> set (assets ethereumResult) \<and>
   liquidityIndex usdcReserve = 1050000000000000000000000000 \<and>
   fgt (tokenBalance usdcAsset) (Num 0)"
proof -
  have m: "ethereumResult \<in> set [ethereumResult]" by simp
  have a: "usdcAsset \<in> set (assets ethereumResult)" by (simp add: ethereumResult_def)
  have i: "\<forall>(chain, url) \<in> set chainProviders. \<forall>reservesData.
           getReservesHumanized (JsonRpcProvider mainnetOnly url) = RpcOk reservesData \<longrightarrow>
           (\<forall>rd \<in> set reservesData. 10 ^ 27 \<le> liquidityIndex rd)"
    by (simp add: chainProviders_def mainnetOnly_def usdcReserve_def)
  from response_tokenBalance_positive [OF ex_response m a i] ex_response a show ?thesis
    by (simp add: usdcReserve_def)
qed

text \<open>
  C4: for every asset entry of the HTTP response, \<open>balanceInUSD\<close> is \<open>tokenBalance\<close>
  times \<open>priceInUSD\<close> within floating-point tolerance. It is the binary64 product of the
  two fields, neither of which is NaN: when both are finite, with values \<open>t\<close> and \<open>p\<close>,
  it is a finite number within \<open>2 ^ -53\<close> of \<open>t * p\<close>, relative (within \<open>2 ^ -1075\<close>
  where the product is subnormal), or the product overflows (\<open>2 ^ 1023\<close> or more in
  magnitude) and it is the infinity of its sign.
\<close>

theorem response_balanceInUSD_is_product:
  assumes "fst (liquidityRates w c) = Json st results"
    and "nr \<in> set results"
    and "a \<in> set (assets nr)"
  shows "balanceInUSD a = fmul (tokenBalance a) (priceInUSD a) \<and>
         tokenBalance a \<noteq> NaN \<and> priceInUSD a \<noteq> NaN \<and>
         (\<forall>t p. tokenBalance a = Num t \<and> priceInUSD a = Num p \<longrightarrow>
            (\<exists>b. balanceInUSD a = Num b \<and>
                 \<bar>b - t * p\<bar> \<le> max (\<bar>t * p\<bar> / 2 ^ 53) (1 / 2 ^ 1075)) \<or>
            (2 ^ 1023 \<le> \<bar>t * p\<bar> \<and>
             balanceInUSD a = (if 0 < t * p then PosInfinity else NegInfinity)))"
proof -
  from response_asset [OF assms] obtain P tkl r rd where a: "assetOf P tkl r rd = Inr a"
    by blast
  then have prod: "balanceInUSD a = fmul (tokenBalance a) (priceInUSD a)"
    by (rule assetOf_balanceInUSD)
  from assetOf_rounded [OF a] have "tokenBalance a \<noteq> NaN" and "priceInUSD a \<noteq> NaN"
    by (metis round64_not_NaN)+
  moreover have "(\<exists>b. balanceInUSD a = Num b \<and>
                 \<bar>b - t * p\<bar> \<le> max (\<bar>t * p\<bar> / 2 ^ 53) (1 / 2 ^ 1075)) \<or>
            (2 ^ 1023 \<le> \<bar>t * p\<bar> \<and>
             balanceInUSD a = (if 0 < t * p then PosInfinity else NegInfinity))"
    if "tokenBalance a = Num t \<and> priceInUSD a = Num p" for t p
    using fmul_finite [of t p] that by (simp only: prod)
  ultimately show ?thesis using prod by blast
qed

theorem response_balanceInUSD_is_product_witness:
  "fst (liquidityRates wethMarket Map.empty) = Json 200 [wethResult] \<and>
   wethAsset \<in> set (assets wethResult) \<and>
   tokenBalance wethAsset = Num (2871044762448691 / 2 ^ 49) \<and>
   priceInUSD wethAsset = Num (965464667675689 / 2 ^ 38) \<and>
   balanceInUSD wethAsset = Num (2461934902573007 / 2 ^ 37) \<and>
   \<bar>2461934902573007 / 2 ^ 37 - 2871044762448691 / 2 ^ 49 * (965464667675689 / 2 ^ 38)\<bar>
     \<le> max (\<bar>2871044762448691 / 2 ^ 49 * (965464667675689 / 2 ^ 38)\<bar> / 2 ^ 53) (1 / 2 ^ 1075 :: rat)"
proof -
  have m: "wethResult \<in> set [wethResult]" by simp
  have a: "wethAsset \<in> set (assets wethResult)" by (simp add: wethResult_def)
  have t: "tokenBalance wethAsset = Num (2871044762448691 / 2 ^ 49)"
    and p: "priceInUSD wethAsset = Num (965464667675689 / 2 ^ 38)"
    and b: "balanceInUSD wethAsset = Num (2461934902573007 / 2 ^ 37)"
    by (simp_all add: wethAsset_def)
  note inst = response_balanceInUSD_is_product [OF ex_weth_response m a]
  from inst have "(\<exists>b. balanceInUSD wethAsset = Num b \<and>
        \<bar>b - 2871044762448691 / 2 ^ 49 * (965464667675689 / 2 ^ 38)\<bar>
          \<le> max (\<bar>2871044762448691 / 2 ^ 49 * (965464667675689 / 2 ^ 38)\<bar> / 2 ^ 53) (1 / 2 ^ 1075)) \<or>
      (2 ^ 1023 \<le> \<bar>2871044762448691 / 2 ^ 49 * (965464667675689 / 2 ^ 38 :: rat)\<bar> \<and>
       balanceInUSD wethAsset =
         (if (0::rat) < 2871044762448691 / 2 ^ 49 * (965464667675689 / 2 ^ 38)
          then PosInfinity else NegInfinity))"
    using t p by blast
  with b have "\<bar>2461934902573007 / 2 ^ 37 - 2871044762448691 / 2 ^ 49 * (965464667675689 / 2 ^ 38)\<bar>
     \<le> max (\<bar>2871044762448691 / 2 ^ 49 * (965464667675689 / 2 ^ 38)\<bar> / 2 ^ 53) (1 / 2 ^ 1075 :: rat)"
    by auto
  with ex_weth_response a t p b show ?thesis by blast
qed

text \<open>
  C5, as claimed: a call after the 24 hours performs a fresh fetch and replaces the cached
  entry. When that fetch fails the entry is not replaced: a list cached at 1700000000500
  is still the entry, with that timestamp, after a call a day later got a 503, and the
  call returned the empty map.
\<close>

theorem expired_entry_kept_counterexample:
  "fetchTokenList tokenListServed (1700000000000, 1700000000500) Map.empty ''ethereum'' =
     ([''USDC'' \<mapsto> usdcMetadata], cachedAt 1700000000500, [HttpGet (tokenListUrls ''ethereum'')]) \<and>
   fetchTokenList tokenListDown (1700086400500, 1700086400900) (cachedAt 1700000000500) ''ethereum'' =
     (Map.empty, cachedAt 1700000000500,
      [HttpGet (tokenListUrls ''ethereum''),
       ConsoleWarn ''Could not fetch token list for ethereum, using fallback or empty list''])"
proof -
  have "cacheHit (cachedAt 1700000000500) (fst (1700086400500, 1700086400900)) ''ethereum'' = None"
    by (simp add: ex_cachedAt CACHE_DURATION_def)
  from fetchTokenList_failed [OF this ex_tokenListDown] show ?thesis
    by (simp add: ex_first_fetch)
qed

text \<open>
  C5, amended: after a successful fetch for a network, a call for that network less than
  24 hours after the stored timestamp returns the cached metadata unchanged, without a
  fetch and without touching the cache. A call 24 hours after it or later performs a
  fresh fetch: when that fetch succeeds, the new metadata is returned and replaces the
  entry, with the new timestamp; when it fails, the empty map is returned and the old
  entry stays.
\<close>

theorem token_list_cache_expiry:
  assumes "cacheHit cache t1 net = None"
    and "fetchTokenMap (fetch1 (tokenListUrls net)) = Inr tokenMap"
  shows "fetchTokenList fetch1 (t1, t1') cache net =
           (tokenMap, cache(net \<mapsto> \<lparr>data = tokenMap, timestamp = t1'\<rparr>),
            [HttpGet (tokenListUrls net)]) \<and>
         (t2 - t1' < CACHE_DURATION \<longrightarrow>
            fetchTokenList fetch2 (t2, t2')
                (cache(net \<mapsto> \<lparr>data = tokenMap, timestamp = t1'\<rparr>)) net =
              (tokenMap, cache(net \<mapsto> \<lparr>data = tokenMap, timestamp = t1'\<rparr>), [])) \<and>
         (CACHE_DURATION \<le> t2 - t1' \<longrightarrow>
            (\<exists>evs. snd (snd (fetchTokenList fetch2 (t2, t2')
                (cache(net \<mapsto> \<lparr>data = tokenMap, timestamp = t1'\<rparr>)) net)) =
               HttpGet (tokenListUrls net) # evs) \<and>
            (\<forall>tokenMap2. fetchTokenMap (fetch2 (tokenListUrls net)) = Inr tokenMap2 \<longrightarrow>
               fetchTokenList fetch2 (t2, t2')
                   (cache(net \<mapsto> \<lparr>data = tokenMap, timestamp = t1'\<rparr>)) net =
                 (tokenMap2, cache(net \<mapsto> \<lparr>data = tokenMap2, timestamp = t2'\<rparr>),
                  [HttpGet (tokenListUrls net)])) \<and>
            (\<forall>e. fetchTokenMap (fetch2 (tokenListUrls net)) = Inl e \<longrightarrow>
               fetchTokenList fetch2 (t2, t2')
                   (cache(net \<mapsto> \<lparr>data = tokenMap, timestamp = t1'\<rparr>)) net =
                 (Map.empty, cache(net \<mapsto> \<lparr>data = tokenMap, timestamp = t1'\<rparr>),
                  [HttpGet (tokenListUrls net),
                   ConsoleWarn (''Could not fetch token list for '' @ net
                                @ '', using fallback or empty list'')])))"
proof (intro conjI impI allI)
  let ?c = "cache(net \<mapsto> \<lparr>data = tokenMap, timestamp = t1'\<rparr>)"
  show "fetchTokenList fetch1 (t1, t1') cache net = (tokenMap, ?c, [HttpGet (tokenListUrls net)])"
    using fetchTokenList_stored [of cache "(t1, t1')" net fetch1 tokenMap] assms by simp
  {
    assume "t2 - t1' < CACHE_DURATION"
    then have "cacheHit ?c (fst (t2, t2')) net = Some tokenMap"
      by (simp add: cacheHit_upd)
    then show "fetchTokenList fetch2 (t2, t2') ?c net = (tokenMap, ?c, [])"
      by (rule fetchTokenList_hit)
  }
  {
    assume "CACHE_DURATION \<le> t2 - t1'"
    then have miss: "cacheHit ?c (fst (t2, t2')) net = None"
      by (simp add: cacheHit_upd)
    show "\<exists>evs. snd (snd (fetchTokenList fetch2 (t2, t2') ?c net)) =
        HttpGet (tokenListUrls net) # evs"
      using miss by (simp add: fetchTokenList_def split: sum.splits)
    {
      fix tokenMap2
      assume "fetchTokenMap (fetch2 (tokenListUrls net)) = Inr tokenMap2"
      with miss have "fetchTokenList fetch2 (t2, t2') ?c net =
          (tokenMap2, ?c(net \<mapsto> \<lparr>data = tokenMap2, timestamp = snd (t2, t2')\<rparr>),
           [HttpGet (tokenListUrls net)])"
        by (rule fetchTokenList_stored)
      then show "fetchTokenList fetch2 (t2, t2') ?c net =
          (tokenMap2, cache(net \<mapsto> \<lparr>data = tokenMap2, timestamp = t2'\<rparr>),
           [HttpGet (tokenListUrls net)])"
        by simp
    }
    {
      fix e
      assume "fetchTokenMap (fetch2 (tokenListUrls net)) = Inl e"
      with miss show "fetchTokenList fetch2 (t2, t2') ?c net =
          (Map.empty, ?c,
           [HttpGet (tokenListUrls net),
            ConsoleWarn (''Could not fetch token list for '' @ net
                         @ '', using fallback or empty list'')])"
        by (rule fetchTokenList_failed)
    }
  }
qed

theorem token_list_cache_expiry_witness:
  "fetchTokenList tokenListDown (1700000003000, 1700000003100) (cachedAt 1700000000500) ''ethereum'' =
     ([''USDC'' \<mapsto> usdcMetadata], cachedAt 1700000000500, []) \<and>
   fetchTokenList tokenListServed (1700086400500, 1700086400900) (cachedAt 1700000000500) ''ethereum'' =
     ([''USDC'' \<mapsto> usdcMetadata], cachedAt 1700086400900, [HttpGet (tokenListUrls ''ethereum'')]) \<and>
   fst (snd (fetchTokenList tokenListDown (1700086400500, 1700086400900) (cachedAt 1700000000500)
               ''ethereum'')) = cachedAt 1700000000500"
proof -
  have failed: "fetchTokenMap (tokenListDown (tokenListUrls ''ethereum'')) = Inl (HttpError 503)"
    by (rule ex_tokenListDown)
  have miss: "cacheHit Map.empty 1700000000000 ''ethereum'' = None"
    by (simp add: cacheHit_def)
  have served: "fetchTokenMap (tokenListServed (tokenListUrls ''ethereum'')) = Inr [''USDC'' \<mapsto> usdcMetadata]"
    by (rule ex_served)
  note t = token_list_cache_expiry [where ?fetch1.0 = tokenListServed and ?t1'.0 = 1700000000500,
      OF miss served]
  have young: "(1700000003000::int) - 1700000000500 < CACHE_DURATION"
    by (simp add: CACHE_DURATION_def)
  have old: "CACHE_DURATION \<le> (1700086400500::int) - 1700000000500"
    by (simp add: CACHE_DURATION_def)
  from t [where ?t2.0 = 1700000003000 and ?t2'.0 = 1700000003100 and ?fetch2.0 = tokenListDown] young
  have a: "fetchTokenList tokenListDown (1700000003000, 1700000003100)
      (Map.empty(''ethereum'' \<mapsto> \<lparr>data = [''USDC'' \<mapsto> usdcMetadata], timestamp = 1700000000500\<rparr>))
      ''ethereum'' =
     ([''USDC'' \<mapsto> usdcMetadata],
      Map.empty(''ethereum'' \<mapsto> \<lparr>data = [''USDC'' \<mapsto> usdcMetadata], timestamp = 1700000000500\<rparr>), [])"
    by blast
  from t [where ?t2.0 = 1700086400500 and ?t2'.0 = 1700086400900 and ?fetch2.0 = tokenListServed]
    old served
  have b: "fetchTokenList tokenListServed (1700086400500, 1700086400900)
      (Map.empty(''ethereum'' \<mapsto> \<lparr>data = [''USDC'' \<mapsto> usdcMetadata], timestamp = 1700000000500\<rparr>))
      ''ethereum'' =
     ([''USDC'' \<mapsto> usdcMetadata],
      Map.empty(''ethereum'' \<mapsto> \<lparr>data = [''USDC'' \<mapsto> usdcMetadata], timestamp = 1700086400900\<rparr>),
      [HttpGet (tokenListUrls ''ethereum'')])"
    by blast
  from t [where ?t2.0 = 1700086400500 and ?t2'.0 = 1700086400900 and ?fetch2.0 = tokenListDown]
    old failed
  have "fetchTokenList tokenListDown (1700086400500, 1700086400900)
      (Map.empty(''ethereum'' \<mapsto> \<lparr>data = [''USDC'' \<mapsto> usdcMetadata], timestamp = 1700000000500\<rparr>))
      ''ethereum'' =
     (Map.empty,
      Map.empty(''ethereum'' \<mapsto> \<lparr>data = [''USDC'' \<mapsto> usdcMetadata], timestamp = 1700000000500\<rparr>),
      [HttpGet (tokenListUrls ''ethereum''),
       ConsoleWarn (''Could not fetch token list for '' @ ''ethereum''
                    @ '', using fallback or empty list'')])"
    by blast
  then have c: "fst (snd (fetchTokenList tokenListDown (1700086400500, 1700086400900)
      (Map.empty(''ethereum'' \<mapsto> \<lparr>data = [''USDC'' \<mapsto> usdcMetadata], timestamp = 1700000000500\<rparr>))
      ''ethereum'')) =
      Map.empty(''ethereum'' \<mapsto> \<lparr>data = [''USDC'' \<mapsto> usdcMetadata], timestamp = 1700000000500\<rparr>)"
    by (simp only: fst_conv snd_conv)
  from a b c show ?thesis unfolding cachedAt_def by blast
qed

text \<open>
  C6: whatever goes wrong while the token list is retrieved (the request is rejected, the
  status is not ok, the body is no JSON, the document has no \<open>tokens\<close>, an entry has no
  symbol), \<open>fetchTokenList\<close> returns the empty map after one warning; its result is a map
  in every case, never an error.
\<close>

theorem token_list_error_gives_empty_map:
  assumes "cacheHit cache now net = None"
    and "fetched = Rejected \<or>
         (\<exists>st body. fetched = Response False st body) \<or>
         (\<exists>st. fetched = Response True st JsonInvalid) \<or>
         (\<exists>st. fetched = Response True st (JsonDoc None)) \<or>
         (\<exists>st tokens. fetched = Response True st (JsonDoc (Some tokens)) \<and>
            (\<exists>t \<in> set tokens. tk_symbol t = None))"
    and "fetchf (tokenListUrls net) = fetched"
  shows "fetchTokenList fetchf (now, now') cache net =
           (Map.empty, cache,
            [HttpGet (tokenListUrls net),
             ConsoleWarn (''Could not fetch token list for '' @ net @ '', using fallback or empty list'')])"
proof -
  from assms(2) obtain e where "fetchTokenMap fetched = Inl e"
    using fetchTokenMap_Inl_iff [of fetched] by blast
  with assms(3) have "fetchTokenMap (fetchf (tokenListUrls net)) = Inl e" by simp
  with assms(1) show ?thesis
    using fetchTokenList_failed [of cache "(now, now')" net fetchf e] by simp
qed

theorem token_list_error_gives_empty_map_witness:
  "fetchTokenList tokenListDown (1700000000000, 1700000000500) Map.empty ''polygon'' =
     (Map.empty, Map.empty,
      [HttpGet (tokenListUrls ''polygon''),
       ConsoleWarn ''Could not fetch token list for polygon, using fallback or empty list''])"
proof -
  have "cacheHit Map.empty 1700000000000 ''polygon'' = None"
    by (simp add: cacheHit_def)
  moreover have "\<exists>st body. Response False 503 JsonInvalid = Response False st body" by blast
  then have "Response False 503 JsonInvalid = Rejected \<or>
         (\<exists>st body. Response False 503 JsonInvalid = Response False st body) \<or>
         (\<exists>st. Response False 503 JsonInvalid = Response True st JsonInvalid) \<or>
         (\<exists>st. Response False 503 JsonInvalid = Response True st (JsonDoc None)) \<or>
         (\<exists>st tokens. Response False 503 JsonInvalid = Response True st (JsonDoc (Some tokens)) \<and>
            (\<exists>t \<in> set tokens. tk_symbol t = None))"
    by blast
  moreover have "tokenListDown (tokenListUrls ''polygon'') = Response False 503 JsonInvalid"
    by (simp add: tokenListDown_def)
  ultimately have "fetchTokenList tokenListDown (1700000000000, 1700000000500) Map.empty ''polygon'' =
     (Map.empty, Map.empty,
      [HttpGet (tokenListUrls ''polygon''),
       ConsoleWarn (''Could not fetch token list for '' @ ''polygon'' @ '', using fallback or empty list'')])"
    by (rule token_list_error_gives_empty_map)
  then show ?thesis by simp
qed

text \<open>
  C10: a failed retrieval leaves the cache as it was (no entry is stored for the empty
  map), so the next call for the network, at a clock reading that is not earlier, sends
  a request again.
\<close>

theorem failed_token_list_not_cached:
  assumes "cacheHit cache now net = None"
    and "fetchTokenMap (fetchf (tokenListUrls net)) = Inl e"
  shows "fst (snd (fetchTokenList fetchf (now, now') cache net)) = cache \<and>
         fst (fetchTokenList fetchf (now, now') cache net) = Map.empty \<and>
         (\<forall>fetch2 later later'. now \<le> later \<longrightarrow>
            (\<exists>evs. snd (snd (fetchTokenList fetch2 (later, later')
                               (fst (snd (fetchTokenList fetchf (now, now') cache net))) net)) =
                     HttpGet (tokenListUrls net) # evs))"
proof -
  have f: "fetchTokenList fetchf (now, now') cache net =
      (Map.empty, cache,
       [HttpGet (tokenListUrls net),
        ConsoleWarn (''Could not fetch token list for '' @ net @ '', using fallback or empty list'')])"
    using fetchTokenList_failed [of cache "(now, now')" net fetchf e] assms by simp
  have "\<exists>evs. snd (snd (fetchTokenList fetch2 (later, later') cache net)) = HttpGet (tokenListUrls net) # evs"
    if "now \<le> later" for fetch2 later later'
  proof -
    from assms(1) that have "cacheHit cache later net = None" by (rule cacheHit_later)
    then show ?thesis by (simp add: fetchTokenList_def split: sum.splits)
  qed
  with f show ?thesis by simp
qed

theorem failed_token_list_not_cached_witness:
  "fst (snd (fetchTokenList tokenListDown (1700000000000, 1700000000500) Map.empty ''ethereum''))
     ''ethereum'' = None \<and>
   (\<exists>evs. snd (snd (fetchTokenList tokenListServed (1700000060000, 1700000060400)
                      (fst (snd (fetchTokenList tokenListDown (1700000000000, 1700000000500)
                                   Map.empty ''ethereum'')))
                      ''ethereum'')) =
            HttpGet (tokenListUrls ''ethereum'') # evs)"
proof -
  have miss: "cacheHit Map.empty 1700000000000 ''ethereum'' = None"
    by (simp add: cacheHit_def)
  have down: "fetchTokenMap (tokenListDown (tokenListUrls ''ethereum'')) = Inl (HttpError 503)"
    by (rule ex_tokenListDown)
  note t = failed_token_list_not_cached [where fetchf = tokenListDown and ?now'.0 = 1700000000500,
      OF miss down]
  from t have "fst (snd (fetchTokenList tokenListDown (1700000000000, 1700000000500) Map.empty
      ''ethereum'')) = Map.empty"
    by (rule conjunct1)
  then have "fst (snd (fetchTokenList tokenListDown (1700000000000, 1700000000500) Map.empty
      ''ethereum'')) ''ethereum'' = None"
    by simp
  moreover have "(1700000000000::int) \<le> 1700000060000" by simp
  with t [THEN conjunct2, THEN conjunct2, rule_format,
      of 1700000060000 tokenListServed 1700000060400]
  have "\<exists>evs. snd (snd (fetchTokenList tokenListServed (1700000060000, 1700000060400)
                      (fst (snd (fetchTokenList tokenListDown (1700000000000, 1700000000500)
                                   Map.empty ''ethereum'')))
                      ''ethereum'')) =
            HttpGet (tokenListUrls ''ethereum'') # evs"
    by blast
  ultimately show ?thesis by (rule conjI)
qed

text \<open>
  C7: when the contract calls of all six configured networks fail (more generally, when
  \<open>fetchContractData\<close> gives null for each of them), the endpoint answers with status
  200 and an empty array. The status is 200 whatever happens, and a failing network
  does not stop the others: a network whose calls succeed and whose positive reserves
  all have market data (with decimals ethers accepts) is in the response, whatever the
  other five do.
\<close>

theorem failing_networks_answer_200:
  "(\<exists>results. fst (liquidityRates w cache) = Json 200 results) \<and>
   ((\<forall>(chain, rpcUrl) \<in> set chainProviders.
        getUserReservesHumanized (JsonRpcProvider w rpcUrl) = RpcFailed \<or>
        getReservesHumanized (JsonRpcProvider w rpcUrl) = RpcFailed) \<longrightarrow>
      fst (liquidityRates w cache) = Json 200 []) \<and>
   ((\<forall>(chain, rpcUrl) \<in> set chainProviders. \<forall>cache'.
        fst (fetchContractData w cache' chain (JsonRpcProvider w rpcUrl)) = None) \<longrightarrow>
      fst (liquidityRates w cache) = Json 200 []) \<and>
   (\<forall>(chain, rpcUrl) \<in> set chainProviders. \<forall>userReserves reservesData.
        markets w (chainKey chain) \<longrightarrow>
        getUserReservesHumanized (JsonRpcProvider w rpcUrl) = RpcOk userReserves \<longrightarrow>
        getReservesHumanized (JsonRpcProvider w rpcUrl) = RpcOk reservesData \<longrightarrow>
        (\<exists>r \<in> set userReserves. 0 < scaledATokenBalance r) \<longrightarrow>
        (\<forall>r \<in> set userReserves. 0 < scaledATokenBalance r \<longrightarrow>
           (\<exists>rd. findReserveData reservesData r = Some rd \<and> decimals rd \<le> 256)) \<longrightarrow>
        (\<exists>results. fst (liquidityRates w cache) = Json 200 results \<and>
           (\<exists>nr \<in> set results. network nr = chain)))"
proof (intro conjI)
  show "\<exists>results. fst (liquidityRates w cache) = Json 200 results"
    by (simp add: liquidityRates_response)
  have none: "fst (liquidityRates w cache) = Json 200 []"
    if "\<forall>(chain, rpcUrl) \<in> set chainProviders. \<forall>cache'.
        fst (fetchContractData w cache' chain (JsonRpcProvider w rpcUrl)) = None"
    using collect_none [OF that] by (simp add: liquidityRates_response)
  then show "(\<forall>(chain, rpcUrl) \<in> set chainProviders. \<forall>cache'.
        fst (fetchContractData w cache' chain (JsonRpcProvider w rpcUrl)) = None) \<longrightarrow>
      fst (liquidityRates w cache) = Json 200 []"
    by blast
  show "(\<forall>(chain, rpcUrl) \<in> set chainProviders.
        getUserReservesHumanized (JsonRpcProvider w rpcUrl) = RpcFailed \<or>
        getReservesHumanized (JsonRpcProvider w rpcUrl) = RpcFailed) \<longrightarrow>
      fst (liquidityRates w cache) = Json 200 []"
  proof
    assume failed: "\<forall>(chain, rpcUrl) \<in> set chainProviders.
        getUserReservesHumanized (JsonRpcProvider w rpcUrl) = RpcFailed \<or>
        getReservesHumanized (JsonRpcProvider w rpcUrl) = RpcFailed"
    have "\<forall>(chain, rpcUrl) \<in> set chainProviders. \<forall>cache'.
        fst (fetchContractData w cache' chain (JsonRpcProvider w rpcUrl)) = None"
    proof (intro ballI allI, clarify)
      fix chain rpcUrl cache'
      assume "(chain, rpcUrl) \<in> set chainProviders"
      with failed have "getUserReservesHumanized (JsonRpcProvider w rpcUrl) = RpcFailed \<or>
        getReservesHumanized (JsonRpcProvider w rpcUrl) = RpcFailed" by blast
      from fetchContractData_rpc_failed [OF this, of w cache' chain]
      show "fst (fetchContractData w cache' chain (JsonRpcProvider w rpcUrl)) = None" by auto
    qed
    then show "fst (liquidityRates w cache) = Json 200 []" by (rule none)
  qed
  show "\<forall>(chain, rpcUrl) \<in> set chainProviders. \<forall>userReserves reservesData.
        markets w (chainKey chain) \<longrightarrow>
        getUserReservesHumanized (JsonRpcProvider w rpcUrl) = RpcOk userReserves \<longrightarrow>
        getReservesHumanized (JsonRpcProvider w rpcUrl) = RpcOk reservesData \<longrightarrow>
        (\<exists>r \<in> set userReserves. 0 < scaledATokenBalance r) \<longrightarrow>
        (\<forall>r \<in> set userReserves. 0 < scaledATokenBalance r \<longrightarrow>
           (\<exists>rd. findReserveData reservesData r = Some rd \<and> decimals rd \<le> 256)) \<longrightarrow>
        (\<exists>results. fst (liquidityRates w cache) = Json 200 results \<and>
           (\<exists>nr \<in> set results. network nr = chain))"
  proof (intro ballI allI impI, clarify)
    fix chain rpcUrl userReserves reservesData r
    assume cu: "(chain, rpcUrl) \<in> set chainProviders"
      and m: "markets w (chainKey chain)"
      and u: "getUserReservesHumanized (JsonRpcProvider w rpcUrl) = RpcOk userReserves"
      and d: "getReservesHumanized (JsonRpcProvider w rpcUrl) = RpcOk reservesData"
      and r: "r \<in> set userReserves" "0 < scaledATokenBalance r"
      and ok: "\<forall>r \<in> set userReserves. 0 < scaledATokenBalance r \<longrightarrow>
           (\<exists>rd. findReserveData reservesData r = Some rd \<and> decimals rd \<le> 256)"
    from cu have meta: "networkMetadata chain \<noteq> None"
      by (auto simp: chainProviders_def networkMetadata_def)
    have "\<forall>c. fst (fetchContractData w c chain (JsonRpcProvider w rpcUrl)) \<noteq> None"
    proof
      fix c
      show "fst (fetchContractData w c chain (JsonRpcProvider w rpcUrl)) \<noteq> None"
        using m meta u d r ok
        by (intro fetchContractData_Some [where urs = userReserves and rds = reservesData])
          (auto simp: hasBalance_iff)
    qed
    from collect_reports [OF cu this]
    show "\<exists>results. fst (liquidityRates w cache) = Json 200 results \<and>
           (\<exists>nr \<in> set results. network nr = chain)"
      by (simp add: liquidityRates_response)
  qed
qed


theorem failing_networks_answer_200_witness:
  "fst (liquidityRates allDown Map.empty) = Json 200 [] \<and>
   fst (liquidityRates unlistedPosition Map.empty) = Json 200 [] \<and>
   (\<exists>results. fst (liquidityRates mainnetOnly Map.empty) = Json 200 results \<and>
      (\<exists>nr \<in> set results. network nr = ''ethereum''))"
proof (intro conjI)
  let ?url = "''https://eth-mainnet.public.blastapi.io''"
  have eth: "fst (fetchContractData unlistedPosition cache' ''ethereum''
      (JsonRpcProvider unlistedPosition ?url)) = None" for cache'
  proof -
    have "\<exists>c evs e. fetchContractData unlistedPosition cache' ''ethereum''
        (JsonRpcProvider unlistedPosition ?url) =
        (None, c, evs @ [ConsoleError (''Error fetching contract data for '' @ ''ethereum'' @ '':'') e])"
    proof (rule fetchContractData_unmatched)
      show "markets unlistedPosition (chainKey ''ethereum'')"
        by (simp add: ex_key unlistedPosition_def mainnetOnly_def)
      show "getUserReservesHumanized (JsonRpcProvider unlistedPosition ?url) =
          RpcOk [usdcPosition, wethPosition]"
        by (simp add: unlistedPosition_def)
      show "getReservesHumanized (JsonRpcProvider unlistedPosition ?url) = RpcOk [usdcReserve]"
        by (simp add: unlistedPosition_def)
      show "wethPosition \<in> set [usdcPosition, wethPosition]" by simp
      show "hasBalance wethPosition" by (rule ex_hasBalance_weth)
      show "findReserveData [usdcReserve] wethPosition = None" by (rule ex_find_weth)
      show "usdcPosition \<in> set [usdcPosition, wethPosition]" by simp
      show "hasBalance usdcPosition" by (rule ex_hasBalance)
      show "findReserveData [usdcReserve] usdcPosition \<noteq> None" by (simp add: ex_find)
    qed
    then show ?thesis by auto
  qed
  have others: "fst (fetchContractData unlistedPosition cache' chain
      (JsonRpcProvider unlistedPosition url)) = None" if "url \<noteq> ?url" for cache' chain url
    using fetchContractData_rpc_failed [of "JsonRpcProvider unlistedPosition url"
        unlistedPosition cache' chain] that
    by (auto simp: unlistedPosition_def)
  have null: "\<forall>(chain, rpcUrl) \<in> set chainProviders. \<forall>cache'.
      fst (fetchContractData unlistedPosition cache' chain
             (JsonRpcProvider unlistedPosition rpcUrl)) = None"
    by (simp add: chainProviders_def eth others)
  from failing_networks_answer_200 [of unlistedPosition Map.empty]
  have "(\<forall>(chain, rpcUrl) \<in> set chainProviders. \<forall>cache'.
        fst (fetchContractData unlistedPosition cache' chain
               (JsonRpcProvider unlistedPosition rpcUrl)) = None) \<longrightarrow>
      fst (liquidityRates unlistedPosition Map.empty) = Json 200 []"
    by (elim conjE)
  with null show "fst (liquidityRates unlistedPosition Map.empty) = Json 200 []" by (rule rev_mp)
next
  have down: "\<forall>(chain, rpcUrl) \<in> set chainProviders.
        getUserReservesHumanized (JsonRpcProvider allDown rpcUrl) = RpcFailed \<or>
        getReservesHumanized (JsonRpcProvider allDown rpcUrl) = RpcFailed"
    by (simp add: allDown_def)
  from failing_networks_answer_200 [of allDown Map.empty]
  have "(\<forall>(chain, rpcUrl) \<in> set chainProviders.
        getUserReservesHumanized (JsonRpcProvider allDown rpcUrl) = RpcFailed \<or>
        getReservesHumanized (JsonRpcProvider allDown rpcUrl) = RpcFailed) \<longrightarrow>
      fst (liquidityRates allDown Map.empty) = Json 200 []"
    by (elim conjE)
  with down show "fst (liquidityRates allDown Map.empty) = Json 200 []" by (rule rev_mp)
next
  let ?url = "''https://eth-mainnet.public.blastapi.io''"
  have mem: "(''ethereum'', ?url) \<in> set chainProviders"
    by (simp add: chainProviders_def)
  from failing_networks_answer_200 [of mainnetOnly Map.empty]
  have "\<forall>(chain, rpcUrl) \<in> set chainProviders. \<forall>userReserves reservesData.
        markets mainnetOnly (chainKey chain) \<longrightarrow>
        getUserReservesHumanized (JsonRpcProvider mainnetOnly rpcUrl) = RpcOk userReserves \<longrightarrow>
        getReservesHumanized (JsonRpcProvider mainnetOnly rpcUrl) = RpcOk reservesData \<longrightarrow>
        (\<exists>r \<in> set userReserves. 0 < scaledATokenBalance r) \<longrightarrow>
        (\<forall>r \<in> set userReserves. 0 < scaledATokenBalance r \<longrightarrow>
           (\<exists>rd. findReserveData reservesData r = Some rd \<and> decimals rd \<le> 256)) \<longrightarrow>
        (\<exists>results. fst (liquidityRates mainnetOnly Map.empty) = Json 200 results \<and>
           (\<exists>nr \<in> set results. network nr = chain))"
    by (elim conjE)
  from bspec [OF this mem]
  have "markets mainnetOnly (chainKey ''ethereum'') \<longrightarrow>
        getUserReservesHumanized (JsonRpcProvider mainnetOnly ?url) = RpcOk [usdcPosition] \<longrightarrow>
        getReservesHumanized (JsonRpcProvider mainnetOnly ?url) = RpcOk [usdcReserve] \<longrightarrow>
        (\<exists>r \<in> set [usdcPosition]. 0 < scaledATokenBalance r) \<longrightarrow>
        (\<forall>r \<in> set [usdcPosition]. 0 < scaledATokenBalance r \<longrightarrow>
           (\<exists>rd. findReserveData [usdcReserve] r = Some rd \<and> decimals rd \<le> 256)) \<longrightarrow>
        (\<exists>results. fst (liquidityRates mainnetOnly Map.empty) = Json 200 results \<and>
           (\<exists>nr \<in> set results. network nr = ''ethereum''))"
    by (simp only: case_prod_conv) blast
  moreover have "markets mainnetOnly (chainKey ''ethereum'')"
    by (simp add: ex_key mainnetOnly_def)
  moreover have "getUserReservesHumanized (JsonRpcProvider mainnetOnly ?url) = RpcOk [usdcPosition]"
    and "getReservesHumanized (JsonRpcProvider mainnetOnly ?url) = RpcOk [usdcReserve]"
    by (simp_all add: mainnetOnly_def)
  moreover have "\<exists>r \<in> set [usdcPosition]. 0 < scaledATokenBalance r"
    by (simp add: usdcPosition_def)
  moreover have "\<forall>r \<in> set [usdcPosition]. 0 < scaledATokenBalance r \<longrightarrow>
           (\<exists>rd. findReserveData [usdcReserve] r = Some rd \<and> decimals rd \<le> 256)"
    by (simp add: ex_find) (simp add: usdcReserve_def)
  ultimately show "\<exists>results. fst (liquidityRates mainnetOnly Map.empty) = Json 200 results \<and>
      (\<exists>nr \<in> set results. network nr = ''ethereum'')"
    by blast
qed

text \<open>
  C8: for a user reserve with its market data, the real balance is
  \<open>scaledBalance * liquidityIndex / 10 ^ 27\<close> in integers, and \<open>tokenBalance\<close> is that
  integer over \<open>10 ^ decimals\<close> as a number. With scaled balance 1000, liquidity index
  \<open>1.05 * 10 ^ 27\<close> and 6 decimals the real balance is 1050 and \<open>tokenBalance\<close> is the
  number 0.00105: the binary64 value \<open>4842270319348757 / 2 ^ 62\<close>, within \<open>10 ^ -19\<close> of
  the decimal.
\<close>

theorem real_balance_ray_scaled:
  "(findReserveData reservesData reserve = Some reserveData \<longrightarrow>
      0 < scaledATokenBalance reserve \<longrightarrow> 0 \<le> liquidityIndex reserveData \<longrightarrow>
      decimals reserveData \<le> 256 \<longrightarrow>
      (\<exists>a. mapReserve pow tokenList reservesData reserve = (Inr (Some a), []) \<and>
         tokenBalance a =
           parseFloat (of_int (scaledATokenBalance reserve * liquidityIndex reserveData div 10 ^ 27)
                       / 10 ^ decimals reserveData))) \<and>
   rawBalance 1000 1050000000000000000000000000 = 1050 \<and>
   normalizeBalance 1050 6 = Inr (parseFloat (105 / 100000)) \<and>
   parseFloat (105 / 100000) = Num (4842270319348757 / 2 ^ 62) \<and>
   \<bar>4842270319348757 / 2 ^ 62 - 105 / 100000\<bar> < (1 / 10 ^ 19 :: rat)"
proof (intro conjI impI)
  assume f: "findReserveData reservesData reserve = Some reserveData"
    and s: "0 < scaledATokenBalance reserve" and i: "0 \<le> liquidityIndex reserveData"
    and d: "decimals reserveData \<le> 256"
  from assetOf_succeeds [OF d] obtain a
    where a: "assetOf pow tokenList reserve reserveData = Inr a" by blast
  from s i have "rawBalance (scaledATokenBalance reserve) (liquidityIndex reserveData) =
      scaledATokenBalance reserve * liquidityIndex reserveData div 10 ^ 27"
    by (intro rawBalance_nonneg) simp_all
  with assetOf_tokenBalance [OF a]
  have "tokenBalance a =
      parseFloat (of_int (scaledATokenBalance reserve * liquidityIndex reserveData div 10 ^ 27)
                  / 10 ^ decimals reserveData)"
    by (simp add: normalizeBalance_Inr parseFloat_def)
  moreover from f a have "mapReserve pow tokenList reservesData reserve = (Inr (Some a), [])"
    by (simp add: mapReserve_def)
  ultimately show "\<exists>a. mapReserve pow tokenList reservesData reserve = (Inr (Some a), []) \<and>
      tokenBalance a =
        parseFloat (of_int (scaledATokenBalance reserve * liquidityIndex reserveData div 10 ^ 27)
                    / 10 ^ decimals reserveData)"
    by blast
next
  show "rawBalance 1000 1050000000000000000000000000 = 1050" by (rule ex_raw)
  show "normalizeBalance 1050 6 = Inr (parseFloat (105 / 100000))"
    by (simp add: normalizeBalance_def formatUnits_def)
  show "parseFloat (105 / 100000) = Num (4842270319348757 / 2 ^ 62)"
    by (simp only: parseFloat_def round64_00105)
  show "\<bar>4842270319348757 / 2 ^ 62 - 105 / 100000\<bar> < (1 / 10 ^ 19 :: rat)" by simp
qed

theorem real_balance_ray_scaled_witness:
  "\<exists>a. mapReserve pow_rounded Map.empty [usdcReserve] usdcPosition = (Inr (Some a), []) \<and>
      tokenBalance a = parseFloat (105 / 100000)"
proof -
  have f: "findReserveData [usdcReserve] usdcPosition = Some usdcReserve" by (rule ex_find)
  have s: "0 < scaledATokenBalance usdcPosition" by (simp add: usdcPosition_def)
  have i: "0 \<le> liquidityIndex usdcReserve" and d: "decimals usdcReserve \<le> 256"
    by (simp_all add: usdcReserve_def)
  have eq: "(of_int (scaledATokenBalance usdcPosition * liquidityIndex usdcReserve div 10 ^ 27)
      / 10 ^ decimals usdcReserve :: rat) = 105 / 100000"
    by (simp add: usdcPosition_def usdcReserve_def)
  note t = real_balance_ray_scaled [of "[usdcReserve]" usdcPosition usdcReserve pow_rounded Map.empty]
  from t [THEN conjunct1, rule_format, OF f s i d] show ?thesis by (simp only: eq)
qed

text \<open>
  C9: when the upper-cased symbol of the market data is not a key of the token list, the
  asset gets the symbol as its name and the placeholder image. Looking the symbol up
  raises nothing: whether the reserve's computation raises does not depend on the token
  list, and it only raises when ethers refuses the reserve's decimals.
\<close>

theorem missing_token_metadata_falls_back:
  assumes "findReserveData reservesData reserve = Some reserveData"
    and "tokenList (toUpperCase (rd_symbol reserveData)) = None"
  shows "(case fst (mapReserve pow tokenList reservesData reserve) of
            Inr (Some a) \<Rightarrow>
              name a = Some (rd_symbol reserveData) \<and> image_url a = Some placeholderImage
          | Inr None \<Rightarrow> False
          | Inl e \<Rightarrow> 256 < decimals reserveData) \<and>
         isl (fst (mapReserve pow tokenList reservesData reserve)) =
           isl (fst (mapReserve pow otherList reservesData reserve))"
  using assms
  by (auto simp: mapReserve_def assetOf_def tokenMetadataFor_def normalizeBalance_def
      formatUnits_def Let_def split: sum.splits option.splits)

theorem missing_token_metadata_falls_back_witness:
  "fst (mapReserve pow_rounded Map.empty [usdcReserve] usdcPosition) = Inr (Some usdcAsset) \<and>
   name usdcAsset = Some ''USDC'' \<and> image_url usdcAsset = Some placeholderImage"
proof -
  have "Map.empty (toUpperCase (rd_symbol usdcReserve)) = (None :: TokenMetadata option)" by simp
  from missing_token_metadata_falls_back [OF ex_find this, of pow_rounded Map.empty]
  have "name usdcAsset = Some (rd_symbol usdcReserve) \<and> image_url usdcAsset = Some placeholderImage"
    by (simp add: ex_mapReserve)
  then have "name usdcAsset = Some ''USDC'' \<and> image_url usdcAsset = Some placeholderImage"
    by (simp add: usdcReserve_def)
  then show ?thesis by (simp add: ex_mapReserve)
qed

end
